theory Spec2Isabelle
  imports Complex_Main
begin

section \<open>Python values shared by the whole pipeline\<close>

text \<open>
  Instants of \<open>datetime.now(timezone.utc)\<close> are counted in microseconds since the epoch
  (Python's \<open>datetime\<close> has microsecond resolution), so a \<open>timedelta\<close> is an integer number
  of microseconds. Readings of \<open>time.monotonic()\<close> and the sample of \<open>random.uniform\<close> are
  real numbers of seconds.
\<close>

type_synonym datetime = int

definition usec_per_day :: int where
  "usec_per_day = 86400000000"

definition usec_per_hour :: int where
  "usec_per_hour = 3600000000"

definition timedelta_days :: "int \<Rightarrow> int" where
  \<comment> \<open>\<open>timedelta.days\<close>: the normalised day count, rounded towards minus infinity.\<close>
  "timedelta_days delta = delta div usec_per_day"

definition dict_get :: "('k \<rightharpoonup> 'v) \<Rightarrow> 'k \<Rightarrow> 'v \<Rightarrow> 'v" where
  \<comment> \<open>\<open>d.get(key, default)\<close>\<close>
  "dict_get d k dflt = (case d k of None \<Rightarrow> dflt | Some v \<Rightarrow> v)"

section \<open>utils/rate\_limiter.py\<close>

record rate_limiter =
  min_delay :: int
  max_delay :: int
  warmup :: "string \<rightharpoonup> int"
  started_at :: datetime
  last_send :: real

definition get_current_daily_limit :: "rate_limiter \<Rightarrow> datetime \<Rightarrow> int" where
  \<comment> \<open>The second argument is the instant \<open>datetime.now(timezone.utc)\<close> returns.\<close>
  "get_current_daily_limit rl now =
     (let weeks = timedelta_days (now - started_at rl) div 7 + 1 in
      if weeks \<le> 1 then dict_get (warmup rl) ''week_1'' 2
      else if weeks \<le> 2 then dict_get (warmup rl) ''week_2'' 5
      else if weeks \<le> 3 then dict_get (warmup rl) ''week_3'' 8
      else dict_get (warmup rl) ''week_4_plus'' 12)"

text \<open>
  \<open>RateLimiter.wait\<close>. The environment supplies the first reading \<open>now\<close> of
  \<open>time.monotonic()\<close>, the sample \<open>delay\<close> of \<open>random.uniform(min_delay, max_delay)\<close> and
  \<open>lag\<close>, the time that passes between the two clock readings beyond the sleep that was
  asked for (zero for an exact sleep). The second reading is stored in \<open>last_send\<close>: it is
  the instant at which the call completes.
\<close>

definition wait :: "rate_limiter \<Rightarrow> real \<Rightarrow> real \<Rightarrow> real \<Rightarrow> rate_limiter" where
  "wait rl now delay lag =
     (let elapsed = now - last_send rl;
          remaining = delay - elapsed;
          slept = (if remaining > 0 then remaining else 0)
      in rl\<lparr>last_send := now + slept + lag\<rparr>)"

text \<open>\<open>N\<close> consecutive calls: one environment triple per call.\<close>

fun waits :: "rate_limiter \<Rightarrow> (real \<times> real \<times> real) list \<Rightarrow> rate_limiter list" where
  "waits rl [] = []"
| "waits rl ((now, delay, lag) # es) = wait rl now delay lag # waits (wait rl now delay lag) es"

fun intervals :: "real \<Rightarrow> real list \<Rightarrow> real list" where
  \<comment> \<open>the differences of consecutive instants, starting from \<open>t\<close>\<close>
  "intervals t [] = []"
| "intervals t (u # us) = (u - t) # intervals u us"

definition inter_send_intervals :: "rate_limiter \<Rightarrow> (real \<times> real \<times> real) list \<Rightarrow> real list" where
  \<comment> \<open>the times between the completions of consecutive calls of \<open>wait\<close>\<close>
  "inter_send_intervals rl es =
     (case map last_send (waits rl es) of [] \<Rightarrow> [] | t # ts \<Rightarrow> intervals t ts)"

definition samples_in_window :: "rate_limiter \<Rightarrow> (real \<times> real \<times> real) list \<Rightarrow> bool" where
  \<comment> \<open>every sample of \<open>random.uniform\<close> lies in the window, and no clock runs backwards\<close>
  "samples_in_window rl es =
     list_all (\<lambda>(now, delay, lag). real_of_int (min_delay rl) \<le> delay
                                 \<and> delay \<le> real_of_int (max_delay rl) \<and> 0 \<le> lag) es"

fun prompt :: "rate_limiter \<Rightarrow> (real \<times> real \<times> real) list \<Rightarrow> bool" where
  \<comment> \<open>every call is entered no later than \<open>max_delay\<close> after the last completion, and
      every sleep is exact\<close>
  "prompt rl [] = True"
| "prompt rl ((now, delay, lag) # es) =
     (now - last_send rl \<le> real_of_int (max_delay rl) \<and> lag = 0 \<and> prompt (wait rl now delay lag) es)"

definition prompt_after_first :: "rate_limiter \<Rightarrow> (real \<times> real \<times> real) list \<Rightarrow> bool" where
  "prompt_after_first rl es =
     (case es of [] \<Rightarrow> True | (now, delay, lag) # rest \<Rightarrow> prompt (wait rl now delay lag) rest)"

definition default_limiter :: rate_limiter where
  \<comment> \<open>The limiter the orchestrator builds from the default settings, started at instant 0.\<close>
  "default_limiter =
     \<lparr>min_delay = 120, max_delay = 600,
      warmup = [''week_1'' \<mapsto> 2, ''week_2'' \<mapsto> 5, ''week_3'' \<mapsto> 8, ''week_4_plus'' \<mapsto> 12],
      started_at = 0, last_send = 0\<rparr>"

definition tuned_limiter :: rate_limiter where
  \<comment> \<open>A limiter with a schedule of its own for the first three weeks and no entry for the
      fourth, started two days after instant 0.\<close>
  "tuned_limiter =
     \<lparr>min_delay = 120, max_delay = 600,
      warmup = [''week_1'' \<mapsto> 3, ''week_2'' \<mapsto> 6, ''week_3'' \<mapsto> 9],
      started_at = 2 * usec_per_day, last_send = 0\<rparr>"

section \<open>Python values returned by the collaborators\<close>

text \<open>
  The exceptions the pipeline distinguishes. \<open>FloodWaitError\<close> carries its \<open>seconds\<close>;
  \<open>OtherError\<close> stands for any exception no handler of the source names (HTTP and
  transport errors of the text-generation client among them). \<open>ProgrammingError\<close> and
  \<open>OverflowError\<close> are what the database driver raises for a parameter it cannot bind
  (the first is an \<open>InterfaceError\<close> in older releases of the driver).
\<close>

datatype exn =
    TypeError
  | AttributeError
  | FloodWaitError nat
  | PeerFloodError
  | ChatWriteForbiddenError
  | UserPrivacyRestrictedError
  | ProgrammingError
  | OverflowError
  | OtherError

text \<open>
  What \<open>json.loads\<close> returns: \<open>None\<close>, a bool, an int (unbounded), a float, a string, a
  list or a dict (an association list, looked up with \<open>map_of\<close>). The floats are the finite
  ones, read as the real numbers they denote; \<open>NaN\<close> and the infinities have no value here.
\<close>

datatype json =
    JNull
  | JBool bool
  | JInt int
  | JNum real
  | JStr string
  | JArr "json list"
  | JObj "(string \<times> json) list"

fun truthy :: "json \<Rightarrow> bool" where
  "truthy JNull = False"
| "truthy (JBool b) = b"
| "truthy (JInt i) = (i \<noteq> 0)"
| "truthy (JNum x) = (x \<noteq> 0)"
| "truthy (JStr s) = (s \<noteq> [])"
| "truthy (JArr xs) = (xs \<noteq> [])"
| "truthy (JObj kvs) = (kvs \<noteq> [])"

definition truthy_int :: "int option \<Rightarrow> bool" where
  \<comment> \<open>truth value of an \<open>int | None\<close>\<close>
  "truthy_int v = (case v of None \<Rightarrow> False | Some i \<Rightarrow> i \<noteq> 0)"

definition truthy_str :: "string option \<Rightarrow> bool" where
  \<comment> \<open>truth value of a \<open>str | None\<close>\<close>
  "truthy_str v = (case v of None \<Rightarrow> False | Some t \<Rightarrow> t \<noteq> [])"

definition obj_get :: "(string \<times> json) list \<Rightarrow> string \<Rightarrow> json \<Rightarrow> json" where
  \<comment> \<open>\<open>d.get(key, default)\<close> on a dict\<close>
  "obj_get kvs k dflt = (case map_of kvs k of None \<Rightarrow> dflt | Some v \<Rightarrow> v)"

fun py_get :: "json \<Rightarrow> string \<Rightarrow> json \<Rightarrow> exn + json" where
  \<comment> \<open>\<open>result.get(key, default)\<close>: only a dict has the method\<close>
  "py_get (JObj kvs) k dflt = Inr (obj_get kvs k dflt)"
| "py_get _ k dflt = Inl AttributeError"

fun py_less :: "json \<Rightarrow> real \<Rightarrow> exn + bool" where
  \<comment> \<open>\<open>score < threshold\<close> against a float: numbers and bools compare, the rest raise\<close>
  "py_less (JNum x) t = Inr (x < t)"
| "py_less (JInt i) t = Inr (real_of_int i < t)"
| "py_less (JBool b) t = Inr ((if b then 1 else 0) < t)"
| "py_less _ t = Inl TypeError"


fun bind_error :: "json \<Rightarrow> exn option" where
  \<comment> \<open>Binding a value as a parameter of a statement (\<open>sqlite3\<close>): \<open>None\<close>, bools, floats,
      strings and the integers of 64 bits are bound; a list or a dict is refused, a larger
      integer overflows.\<close>
  "bind_error (JArr xs) = Some ProgrammingError"
| "bind_error (JObj kvs) = Some ProgrammingError"
| "bind_error (JInt i) = (if - (2 ^ 63) \<le> i \<and> i < 2 ^ 63 then None else Some OverflowError)"
| "bind_error _ = None"

section \<open>Text normalisation and the dedup hash (Orchestrator.\_compute\_text\_hash)\<close>

text \<open>
  A text is the list of its code points; the model covers the code points below 256, on
  which \<open>str.isspace\<close> and \<open>\s\<close> hold for the twelve characters below and \<open>str.lower\<close>
  moves the upper-case letters by 32.
\<close>

definition py_isspace :: "char \<Rightarrow> bool" where
  "py_isspace c = ((of_char c :: nat) \<in> {9, 10, 11, 12, 13, 28, 29, 30, 31, 32, 133, 160})"

definition py_lower_char :: "char \<Rightarrow> char" where
  "py_lower_char c =
     (let n = (of_char c :: nat) in
      if (65 \<le> n \<and> n \<le> 90) \<or> (192 \<le> n \<and> n \<le> 222 \<and> n \<noteq> 215) then char_of (n + 32) else c)"

definition py_strip :: "string \<Rightarrow> string" where
  "py_strip t = rev (dropWhile py_isspace (rev (dropWhile py_isspace t)))"

definition py_lower :: "string \<Rightarrow> string" where
  "py_lower t = map py_lower_char t"

function re_sub_ws :: "string \<Rightarrow> string" where
  \<comment> \<open>\<open>re.sub(r"\s+", " ", t)\<close>: every maximal run of whitespace becomes one space\<close>
  "re_sub_ws [] = []"
| "re_sub_ws (c # cs) =
     (if py_isspace c then CHR '' '' # re_sub_ws (dropWhile py_isspace cs)
      else c # re_sub_ws cs)"
  by pat_completeness auto
termination
  by (relation "measure length") (auto simp: length_dropWhile_le less_Suc_eq_le)

definition normalize_text :: "string \<Rightarrow> string" where
  "normalize_text t = re_sub_ws (py_lower (py_strip t))"

definition compute_text_hash :: "(string \<Rightarrow> string) \<Rightarrow> string \<Rightarrow> string" where
  \<comment> \<open>The first argument is \<open>hashlib.sha256(...).hexdigest()\<close>, a library function.\<close>
  "compute_text_hash sha256 t = sha256 (normalize_text t)"

section \<open>db/models.py\<close>

record channel =
  ch_id :: int
  ch_telegram_id :: "int option"
  ch_username :: "string option"
  ch_title :: "string option"
  ch_is_active :: bool
  ch_discovered_from :: "string option"
  ch_discovered_at :: "datetime option"

record message =
  msg_id :: int
  msg_telegram_msg_id :: int
  msg_channel_id :: int
  msg_sender_id :: "int option"
  msg_sender_username :: "string option"
  msg_text :: "string option"
  msg_date :: "string option"
  msg_text_hash :: "string option"

text \<open>
  The classification fields of a Lead hold whatever the classifier's JSON held
  (\<open>JNull\<close> for \<open>None\<close>).
\<close>

record lead =
  lead_id :: int
  lead_message_id :: int
  lead_status :: string
  lead_relevance_score :: json
  lead_budget :: json
  lead_stack :: json
  lead_deadline :: json
  lead_language :: json
  lead_summary :: json
  lead_outreach_text :: "string option"
  lead_dm_text :: "string option"
  lead_outreach_msg_id :: "int option"
  lead_dm_msg_id :: "int option"
  lead_contacted_at :: "datetime option"
  lead_replied_at :: "datetime option"
  lead_forwarded_at :: "datetime option"

record reply =
  reply_id :: int
  reply_lead_id :: int
  reply_telegram_msg_id :: "int option"
  reply_sender_id :: "int option"
  reply_text :: "string option"
  reply_sentiment :: "string option"
  reply_received_at :: "datetime option"

text \<open>A row of \<open>daily_budget\<close>; its date is the key under which it is stored.\<close>

record daily_budget_row =
  sends_used :: int
  max_sends :: int

section \<open>The collaborators' data\<close>

record incoming_message =
  im_telegram_msg_id :: int
  im_chat_id :: int
  im_sender_id :: "int option"
  im_sender_username :: "string option"
  im_text :: string
  im_date :: string

datatype notification =
    PositiveReply json string "string option" "string option"
  | PeerFloodNotice

record send_result =
  thread_msg_id :: "int option"
  dm_msg_id :: "int option"
  peer_flood :: bool

text \<open>What one call of the Telegram client's \<open>send_message\<close> does.\<close>

datatype tg_reply = Delivered int | Raises exn

section \<open>The state: the database, the collector, the notifier and the in-memory fields\<close>

text \<open>
  Calendar dates (\<open>date.today()\<close>) are day numbers. The tables are lists of rows in
  insertion order; \<open>daily_budget\<close> is keyed by its date.
\<close>

record state =
  channels :: "channel list"
  messages :: "message list"
  leads :: "lead list"
  replies :: "reply list"
  daily_budget :: "int \<rightharpoonup> daily_budget_row"
  monitored_chats :: "int set"
  queue :: "incoming_message list"
  outreach_paused_until :: "datetime option"
  limiter :: rate_limiter
  notifications :: "notification list"
  known_ids :: "int set"
  rejected_ids :: "int set"

section \<open>db/repository.py\<close>

definition next_id :: "int list \<Rightarrow> int" where
  \<comment> \<open>Modelled from the spec: the schema file is not part of the sources; a row id is the
      integer primary key the database allots, one above the largest id in the table.\<close>
  "next_id ids = (if ids = [] then 1 else Max (set ids) + 1)"

definition get_channel_by_telegram_id :: "state \<Rightarrow> int \<Rightarrow> channel option" where
  "get_channel_by_telegram_id s tid = find (\<lambda>c. ch_telegram_id c = Some tid) (channels s)"

definition get_channel_row :: "state \<Rightarrow> int \<Rightarrow> channel option" where
  \<comment> \<open>\<open>SELECT * FROM channels WHERE id=?\<close>, first row\<close>
  "get_channel_row s cid = find (\<lambda>c. ch_id c = cid) (channels s)"

definition upsert_channel :: "state \<Rightarrow> channel \<Rightarrow> int option \<times> state" where
  \<comment> \<open>The id of the argument is ignored; the result is the id of the first row with the
      telegram id, \<open>None\<close> where the source's \<open>row["id"]\<close> has no row to read.\<close>
  "upsert_channel s ch =
     (let s' = (if \<exists>c \<in> set (channels s). ch_telegram_id c = ch_telegram_id ch \<and> ch_telegram_id ch \<noteq> None
                then s\<lparr>channels := map (\<lambda>c. if ch_telegram_id c = ch_telegram_id ch
                                              then c\<lparr>ch_username := ch_username ch, ch_title := ch_title ch,
                                                     ch_is_active := ch_is_active ch\<rparr>
                                              else c) (channels s)\<rparr>
                else s\<lparr>channels := channels s @ [ch\<lparr>ch_id := next_id (map ch_id (channels s))\<rparr>]\<rparr>)
      in (map_option ch_id (find (\<lambda>c. ch_telegram_id c = ch_telegram_id ch \<and> ch_telegram_id ch \<noteq> None)
                              (channels s')), s'))"




definition insert_message :: "state \<Rightarrow> message \<Rightarrow> int option \<times> state" where
  \<comment> \<open>Modelled from the spec: the schema file is not part of the sources; the pair
      (channel, platform message id) is unique, and its violation is the
      \<open>IntegrityError\<close> the source answers with \<open>None\<close>.\<close>
  "insert_message s msg =
     (if \<exists>m \<in> set (messages s). msg_channel_id m = msg_channel_id msg
                                \<and> msg_telegram_msg_id m = msg_telegram_msg_id msg
      then (None, s)
      else (let i = next_id (map msg_id (messages s))
            in (Some i, s\<lparr>messages := messages s @ [msg\<lparr>msg_id := i\<rparr>]\<rparr>)))"

definition has_lead_with_text_hash :: "state \<Rightarrow> string \<Rightarrow> bool" where
  "has_lead_with_text_hash s h =
     (\<exists>l \<in> set (leads s). \<exists>m \<in> set (messages s). lead_message_id l = msg_id m \<and> msg_text_hash m = Some h)"

definition get_message :: "state \<Rightarrow> int \<Rightarrow> message option" where
  "get_message s mid = find (\<lambda>m. msg_id m = mid) (messages s)"

definition insert_lead :: "state \<Rightarrow> lead \<Rightarrow> exn + int \<times> state" where
  \<comment> \<open>The insert writes the message id, the status and the six classification columns;
      the other columns of the new row are \<open>NULL\<close>. It raises, and stores nothing, on the
      first classification value that cannot be bound.\<close>
  "insert_lead s l =
     (case List.map_filter bind_error
             [lead_relevance_score l, lead_budget l, lead_stack l, lead_deadline l,
              lead_language l, lead_summary l] of
        ex # _ \<Rightarrow> Inl ex
      | [] \<Rightarrow>
          (let i = next_id (map lead_id (leads s));
               row = \<lparr>lead_id = i, lead_message_id = lead_message_id l, lead_status = lead_status l,
                      lead_relevance_score = lead_relevance_score l, lead_budget = lead_budget l,
                      lead_stack = lead_stack l, lead_deadline = lead_deadline l,
                      lead_language = lead_language l, lead_summary = lead_summary l,
                      lead_outreach_text = None, lead_dm_text = None, lead_outreach_msg_id = None,
                      lead_dm_msg_id = None, lead_contacted_at = None, lead_replied_at = None,
                      lead_forwarded_at = None\<rparr>
           in Inr (i, s\<lparr>leads := leads s @ [row]\<rparr>)))"


definition get_leads_by_status :: "state \<Rightarrow> string \<Rightarrow> lead list" where
  "get_leads_by_status s st = sort_key lead_id (filter (\<lambda>l. lead_status l = st) (leads s))"

definition get_lead :: "state \<Rightarrow> int \<Rightarrow> lead option" where
  "get_lead s lid = find (\<lambda>l. lead_id l = lid) (leads s)"

definition update_lead :: "state \<Rightarrow> lead \<Rightarrow> state" where
  \<comment> \<open>Every column but \<open>id\<close> and \<open>message_id\<close> is written, on the rows with the lead's id.\<close>
  "update_lead s l =
     s\<lparr>leads := map (\<lambda>r. if lead_id r = lead_id l then l\<lparr>lead_message_id := lead_message_id r\<rparr> else r)
                    (leads s)\<rparr>"

definition get_replies_for_lead :: "state \<Rightarrow> int \<Rightarrow> reply list" where
  "get_replies_for_lead s lid = sort_key reply_id (filter (\<lambda>r. reply_lead_id r = lid) (replies s))"


definition increment_daily_sends :: "state \<Rightarrow> int \<Rightarrow> state" where
  "increment_daily_sends s today =
     (case daily_budget s today of
        None \<Rightarrow> s
      | Some r \<Rightarrow> s\<lparr>daily_budget := (daily_budget s)(today \<mapsto> r\<lparr>sends_used := sends_used r + 1\<rparr>)\<rparr>)"

section \<open>llm/classifier.py\<close>

definition classify_message :: "exn + json \<Rightarrow> exn + (string \<times> json) list option" where
  \<comment> \<open>The argument is what \<open>client.chat_json\<close> did: an exception, or the decoded JSON
      (\<open>JNull\<close> for \<open>None\<close>). A result that is returned is a dict.\<close>
  "classify_message llm_reply =
     (case llm_reply of
        Inl e \<Rightarrow> Inl e
      | Inr JNull \<Rightarrow> Inr None
      | Inr result \<Rightarrow>
          (case py_get result ''is_order'' JNull of
             Inl e \<Rightarrow> Inl e
           | Inr is_order \<Rightarrow>
               if \<not> truthy is_order then Inr None
               else (case result of JObj kvs \<Rightarrow> Inr (Some kvs) | _ \<Rightarrow> Inl AttributeError)))"

section \<open>Orchestrator: the intake of one message (\_process\_message)\<close>

datatype intake_result =
    UnknownChannel
  | DuplicateMessage
  | DuplicateText
  | NotAnOrder
  | LowRelevance
  | LeadCreated int
  | Failed exn

definition make_message :: "channel \<Rightarrow> incoming_message \<Rightarrow> string \<Rightarrow> message" where
  \<comment> \<open>the \<open>Message(...)\<close> the intake builds; the database allots its id\<close>
  "make_message channel incoming text_hash =
     \<lparr>msg_id = 0, msg_telegram_msg_id = im_telegram_msg_id incoming,
      msg_channel_id = ch_id channel, msg_sender_id = im_sender_id incoming,
      msg_sender_username = im_sender_username incoming,
      msg_text = Some (im_text incoming), msg_date = Some (im_date incoming),
      msg_text_hash = Some text_hash\<rparr>"

definition make_lead :: "int \<Rightarrow> json \<Rightarrow> (string \<times> json) list \<Rightarrow> lead" where
  \<comment> \<open>the \<open>Lead(...)\<close> the intake builds; the database allots its id\<close>
  "make_lead mid score result =
     \<lparr>lead_id = 0, lead_message_id = mid, lead_status = ''new'',
      lead_relevance_score = score,
      lead_budget = obj_get result ''budget'' JNull,
      lead_stack = obj_get result ''stack'' JNull,
      lead_deadline = obj_get result ''deadline'' JNull,
      lead_language = obj_get result ''language'' JNull,
      lead_summary = obj_get result ''summary'' JNull,
      lead_outreach_text = None, lead_dm_text = None,
      lead_outreach_msg_id = None, lead_dm_msg_id = None,
      lead_contacted_at = None, lead_replied_at = None,
      lead_forwarded_at = None\<rparr>"

definition process_message ::
  "(string \<Rightarrow> string) \<Rightarrow> real \<Rightarrow> state \<Rightarrow> incoming_message \<Rightarrow> exn + json \<Rightarrow> intake_result \<times> state" where
  \<comment> \<open>\<open>min_relevance\<close> is the setting \<open>classification_min_relevance\<close>; an exception (of
      the classifier, of the comparison, of the insert of the Lead) leaves the routine with
      the message already stored.\<close>
  "process_message sha256 min_relevance s incoming llm_reply =
     (case get_channel_by_telegram_id s (im_chat_id incoming) of
        None \<Rightarrow> (UnknownChannel, s)
      | Some channel \<Rightarrow>
          (let text_hash = compute_text_hash sha256 (im_text incoming);
               msg = make_message channel incoming text_hash
           in case insert_message s msg of
                (None, s1) \<Rightarrow> (DuplicateMessage, s1)
              | (Some mid, s1) \<Rightarrow>
                  if has_lead_with_text_hash s1 text_hash then (DuplicateText, s1)
                  else (case classify_message llm_reply of
                          Inl e \<Rightarrow> (Failed e, s1)
                        | Inr None \<Rightarrow> (NotAnOrder, s1)
                        | Inr (Some result) \<Rightarrow>
                            (let score = obj_get result ''relevance_score'' (JInt 0) in
                             case py_less score min_relevance of
                               Inl e \<Rightarrow> (Failed e, s1)
                             | Inr True \<Rightarrow> (LowRelevance, s1)
                             | Inr False \<Rightarrow>
                                 (case insert_lead s1 (make_lead mid score result) of
                                    Inl e \<Rightarrow> (Failed e, s1)
                                  | Inr (lid, s2) \<Rightarrow> (LeadCreated lid, s2))))))"

text \<open>The processor loop: the queue's messages one after the other, each with the reply of
  the classifier's backend to it.\<close>

fun processor_loop ::
  "(string \<Rightarrow> string) \<Rightarrow> real \<Rightarrow> state \<Rightarrow> (incoming_message \<times> (exn + json)) list \<Rightarrow> state" where
  "processor_loop sha256 min_relevance s [] = s"
| "processor_loop sha256 min_relevance s ((incoming, llm_reply) # rest) =
     processor_loop sha256 min_relevance
       (snd (process_message sha256 min_relevance s incoming llm_reply)) rest"

definition leads_with_hash :: "state \<Rightarrow> string \<Rightarrow> lead list" where
  \<comment> \<open>the Leads whose source message carries the hash\<close>
  "leads_with_hash s h =
     filter (\<lambda>l. \<exists>m \<in> set (messages s). lead_message_id l = msg_id m \<and> msg_text_hash m = Some h) (leads s)"

definition referential :: "state \<Rightarrow> bool" where
  \<comment> \<open>every Lead references a stored Message (the foreign key of \<open>leads.message_id\<close>)\<close>
  "referential s = (\<forall>l \<in> set (leads s). \<exists>m \<in> set (messages s). msg_id m = lead_message_id l)"

definition one_lead_per_hash :: "state \<Rightarrow> bool" where
  "one_lead_per_hash s = (\<forall>h. length (leads_with_hash s h) \<le> 1)"

section \<open>utils/retry.py and telegram/sender.py\<close>

fun retry_loop :: "nat \<Rightarrow> nat \<Rightarrow> (nat \<Rightarrow> exn + 'a option) \<Rightarrow> exn + 'a option" where
  \<comment> \<open>The first argument counts the attempts left, the second is the attempt's number; a
      \<open>FloodWaitError\<close> is raised again on the last attempt and slept out before any other.\<close>
  "retry_loop 0 attempt f = Inr None"
| "retry_loop (Suc k) attempt f =
     (case f attempt of
        Inl (FloodWaitError secs) \<Rightarrow>
          if k = 0 then Inl (FloodWaitError secs) else retry_loop k (Suc attempt) f
      | r \<Rightarrow> r)"

definition retry_on_flood :: "nat \<Rightarrow> (nat \<Rightarrow> exn + 'a option) \<Rightarrow> exn + 'a option" where
  "retry_on_flood max_retries f = retry_loop max_retries 1 f"

definition send_thread_reply :: "(nat \<Rightarrow> tg_reply) \<Rightarrow> exn + int option" where
  \<comment> \<open>The argument tells what the client's \<open>send_message\<close> does at each attempt.\<close>
  "send_thread_reply client =
     retry_on_flood 3
       (\<lambda>attempt. case client attempt of
                     Delivered i \<Rightarrow> Inr (Some i)
                   | Raises ChatWriteForbiddenError \<Rightarrow> Inr None
                   | Raises e \<Rightarrow> Inl e)"

definition send_dm :: "(nat \<Rightarrow> tg_reply) \<Rightarrow> exn + int option" where
  "send_dm client =
     retry_on_flood 3
       (\<lambda>attempt. case client attempt of
                     Delivered i \<Rightarrow> Inr (Some i)
                   | Raises UserPrivacyRestrictedError \<Rightarrow> Inr None
                   | Raises e \<Rightarrow> Inl e)"

definition send_outreach ::
  "(nat \<Rightarrow> tg_reply) \<Rightarrow> (nat \<Rightarrow> tg_reply) \<Rightarrow> int option \<Rightarrow> string \<Rightarrow> exn + send_result" where
  "send_outreach thread_client dm_client user_id dm_text =
     (case send_thread_reply thread_client of
        Inl PeerFloodError \<Rightarrow> Inr \<lparr>thread_msg_id = None, dm_msg_id = None, peer_flood = True\<rparr>
      | Inl e \<Rightarrow> Inl e
      | Inr thread_id \<Rightarrow>
          if truthy_int user_id \<and> dm_text \<noteq> [] then
            (case send_dm dm_client of
               Inl PeerFloodError \<Rightarrow> Inr \<lparr>thread_msg_id = None, dm_msg_id = None, peer_flood = True\<rparr>
             | Inl e \<Rightarrow> Inl e
             | Inr dm_id \<Rightarrow> Inr \<lparr>thread_msg_id = thread_id, dm_msg_id = dm_id, peer_flood = False\<rparr>)
          else Inr \<lparr>thread_msg_id = thread_id, dm_msg_id = None, peer_flood = False\<rparr>)"

section \<open>bot/notifier.py\<close>

definition notify :: "state \<Rightarrow> notification \<Rightarrow> bool \<Rightarrow> exn option \<times> state" where
  \<comment> \<open>The flag tells whether the bot's \<open>send_message\<close> returns; otherwise it raises.\<close>
  "notify s n ok =
     (if ok then (None, s\<lparr>notifications := notifications s @ [n]\<rparr>) else (Some OtherError, s))"

section \<open>Orchestrator: outreach\<close>


definition pause_outreach :: "state \<Rightarrow> datetime \<Rightarrow> int \<Rightarrow> state" where
  "pause_outreach s now hours = s\<lparr>outreach_paused_until := Some (now + hours * usec_per_hour)\<rparr>"

text \<open>
  What the world does while one Lead is handled: the clock and calendar readings in the
  order the code takes them, the two generated texts (or the exception of the
  text-generation client), the Telegram client's answers to the two sends, whether the
  notifier delivers, and the environment of the pacing wait.
\<close>

record outreach_env =
  now_paused :: datetime
  today_budget :: int
  now_limit :: datetime
  thread_text_gen :: "exn + string"
  dm_text_gen :: "exn + string"
  thread_client :: "nat \<Rightarrow> tg_reply"
  dm_client :: "nat \<Rightarrow> tg_reply"
  now_sent :: datetime
  today_incr :: int
  notifier_ok :: bool
  wait_now :: real
  wait_delay :: real
  wait_lag :: real

definition orchestrator_send_outreach :: "state \<Rightarrow> lead \<Rightarrow> outreach_env \<Rightarrow> exn option \<times> state" where
  \<comment> \<open>\<open>Orchestrator._send_outreach\<close>; the first component is the exception that leaves it.
      The language and the channel title only feed the text generation.\<close>
  "orchestrator_send_outreach s lead e =
     (case get_message s (lead_message_id lead) of
        None \<Rightarrow> (None, s)
      | Some msg \<Rightarrow>
          if \<not> truthy_str (msg_text msg) then (None, s)
          else (case get_channel_row s (msg_channel_id msg) of
                  None \<Rightarrow> (None, s)
                | Some ch_row \<Rightarrow>
                    (case thread_text_gen e of
                       Inl ex \<Rightarrow> (Some ex, s)
                     | Inr thread_text \<Rightarrow>
                         (case dm_text_gen e of
                            Inl ex \<Rightarrow> (Some ex, s)
                          | Inr dm_text \<Rightarrow>
                              (case send_outreach (thread_client e) (dm_client e) (msg_sender_id msg) dm_text of
                                 Inl ex \<Rightarrow> (Some ex, s)
                               | Inr result \<Rightarrow>
                                   if peer_flood result
                                   then notify (pause_outreach s (now_sent e) 24) PeerFloodNotice (notifier_ok e)
                                   else (None,
                                         increment_daily_sends
                                           (update_lead s
                                              (lead\<lparr>lead_outreach_text := Some thread_text,
                                                     lead_dm_text := Some dm_text,
                                                     lead_outreach_msg_id := thread_msg_id result,
                                                     lead_dm_msg_id := dm_msg_id result,
                                                     lead_status := ''contacted'',
                                                     lead_contacted_at := Some (now_sent e)\<rparr>))
                                           (today_incr e)))))))"









section \<open>Orchestrator: forwarding positive replies\<close>


definition str_or_empty :: "string option \<Rightarrow> string" where
  \<comment> \<open>\<open>t or ""\<close> for a \<open>str | None\<close>\<close>
  "str_or_empty t = (case t of None \<Rightarrow> [] | Some u \<Rightarrow> u)"


definition is_negative :: "reply \<Rightarrow> bool" where
  "is_negative r = (reply_sentiment r = Some ''negative'')"







definition has_negative :: "state \<Rightarrow> lead \<Rightarrow> bool" where
  "has_negative s l = (\<exists>r \<in> set (get_replies_for_lead s (lead_id l)). is_negative r)"



section \<open>telegram/collector.py and the janitor's sweep of dead channels\<close>

definition add_chat :: "state \<Rightarrow> int \<Rightarrow> state" where
  "add_chat s chat = s\<lparr>monitored_chats := insert chat (monitored_chats s)\<rparr>"






section \<open>telegram/discovery.py\<close>

record settings =
  discovery_max_channels :: int
  discovery_backfill_on_discover :: int

text \<open>What the Telegram client returns to the discovery engine.\<close>

record tg_chat =
  chat_is_channel :: bool
  chat_megagroup :: bool
  chat_id :: int
  chat_username :: "string option"
  chat_title :: "string option"

record tg_message =
  tgm_id :: int
  tgm_text :: "string option"
  tgm_sender_id :: "int option"
  tgm_sender_username :: "string option"
  tgm_date :: string
  tgm_fwd_channel :: "int option"

text \<open>
  What the world does while one candidate is registered: the entity the client resolves
  (its username and title), the recent messages sampled for the validation, the answer of
  the text-classification backend, the clock, and the messages the backfill iterates over
  before it ends or raises.
\<close>

record register_env =
  reg_entity :: "exn + (string option \<times> string option)"
  reg_samples :: "exn + tg_message list"
  reg_llm :: "exn + json"
  reg_now :: datetime
  reg_backfill :: "tg_message list"

definition at_capacity :: "settings \<Rightarrow> state \<Rightarrow> bool" where
  "at_capacity cfg s = (int (card (known_ids s)) \<ge> discovery_max_channels cfg)"

definition validate_channel :: "exn + tg_message list \<Rightarrow> exn + json \<Rightarrow> bool" where
  \<comment> \<open>at most five samples of 300 characters from the first ten messages; every error and
      every answer that is not a dict with a boolean \<open>is_relevant\<close> rejects\<close>
  "validate_channel sampled llm_reply =
     (case sampled of
        Inl e \<Rightarrow> False
      | Inr msgs \<Rightarrow>
          (let samples = take 5 (map (take 300)
                           (filter (\<lambda>t. t \<noteq> []) (map (\<lambda>m. str_or_empty (tgm_text m)) (take 10 msgs))))
           in if samples = [] then False
              else (case llm_reply of
                      Inr (JObj kvs) \<Rightarrow>
                        kvs \<noteq> [] \<and> (case map_of kvs ''is_relevant'' of Some (JBool b) \<Rightarrow> b | _ \<Rightarrow> False)
                    | _ \<Rightarrow> False)))"

definition backfill :: "state \<Rightarrow> int \<Rightarrow> tg_message list \<Rightarrow> state" where
  \<comment> \<open>\<open>Collector.backfill\<close>: every message with a text is queued for the intake\<close>
  "backfill s chat msgs =
     s\<lparr>queue := queue s @
          map (\<lambda>m. \<lparr>im_telegram_msg_id = tgm_id m, im_chat_id = chat, im_sender_id = tgm_sender_id m,
                     im_sender_username = tgm_sender_username m, im_text = str_or_empty (tgm_text m),
                     im_date = tgm_date m\<rparr>)
              (filter (\<lambda>m. truthy_str (tgm_text m)) msgs)\<rparr>"

definition try_register ::
  "settings \<Rightarrow> state \<Rightarrow> int \<Rightarrow> string \<Rightarrow> string option \<Rightarrow> string option \<Rightarrow> register_env \<Rightarrow> bool \<times> state" where
  "try_register cfg s telegram_id source username title e =
     (if telegram_id \<in> known_ids s \<or> telegram_id \<in> rejected_ids s then (False, s)
      else if at_capacity cfg s then (False, s)
      else (case get_channel_by_telegram_id s telegram_id of
              Some existing \<Rightarrow> (False, s\<lparr>known_ids := insert telegram_id (known_ids s)\<rparr>)
            | None \<Rightarrow>
                (case (if \<not> truthy_str username \<and> \<not> truthy_str title
                       then (case reg_entity e of Inl ex \<Rightarrow> None | Inr names \<Rightarrow> Some names)
                       else Some (username, title)) of
                   None \<Rightarrow> (False, s)
                 | Some (username', title') \<Rightarrow>
                     if \<not> validate_channel (reg_samples e) (reg_llm e)
                     then (False, s\<lparr>rejected_ids := insert telegram_id (rejected_ids s)\<rparr>)
                     else (let ch = \<lparr>ch_id = 0, ch_telegram_id = Some telegram_id, ch_username = username',
                                     ch_title = title', ch_is_active = True,
                                     ch_discovered_from = Some source, ch_discovered_at = Some (reg_now e)\<rparr>;
                               s1 = snd (upsert_channel s ch);
                               s2 = s1\<lparr>known_ids := insert telegram_id (known_ids s1)\<rparr>;
                               s3 = add_chat s2 telegram_id;
                               s4 = (if discovery_backfill_on_discover cfg > 0
                                     then backfill s3 telegram_id (reg_backfill e) else s3)
                           in (True, s4)))))"

function nat_digits :: "nat \<Rightarrow> string" where
  \<comment> \<open>the decimal digits of a natural number\<close>
  "nat_digits n =
     (if n < 10 then [char_of (48 + n)] else nat_digits (n div 10) @ [char_of (48 + n mod 10)])"
  by pat_completeness auto
termination
  by (relation "measure id") auto

definition str_int :: "int \<Rightarrow> string" where
  \<comment> \<open>\<open>str(i)\<close>, as an f-string formats an int\<close>
  "str_int i = (if i < 0 then CHR ''-'' # nat_digits (nat (- i)) else nat_digits (nat i))"

text \<open>Strategy 1: the keywords, each with the chats the platform's search returns for it.\<close>

fun register_chats ::
  "settings \<Rightarrow> state \<Rightarrow> string \<Rightarrow> tg_chat list \<Rightarrow> (int \<Rightarrow> register_env) \<Rightarrow> nat \<times> state" where
  "register_chats cfg s keyword [] env = (0, s)"
| "register_chats cfg s keyword (chat # chats) env =
     (if \<not> chat_is_channel chat \<or> chat_megagroup chat then register_chats cfg s keyword chats env
      else (case try_register cfg s (chat_id chat) (''search:'' @ keyword)
                   (chat_username chat) (chat_title chat) (env (chat_id chat)) of
              (added, s1) \<Rightarrow>
                (case register_chats cfg s1 keyword chats env of
                   (n, s2) \<Rightarrow> ((if added then 1 else 0) + n, s2))))"

fun search_by_keywords ::
  "settings \<Rightarrow> state \<Rightarrow> string list \<Rightarrow> (string \<Rightarrow> exn + tg_chat list) \<Rightarrow> (int \<Rightarrow> register_env)
     \<Rightarrow> nat \<times> state" where
  \<comment> \<open>The keyword list is what \<open>_get_all_keywords\<close> returns; a failed search is logged and
      the next keyword follows.\<close>
  "search_by_keywords cfg s [] search env = (0, s)"
| "search_by_keywords cfg s (keyword # keywords) search env =
     (if at_capacity cfg s then (0, s)
      else (case (case search keyword of
                    Inl ex \<Rightarrow> (0, s)
                  | Inr chats \<Rightarrow> register_chats cfg s keyword chats env) of
              (n, s1) \<Rightarrow>
                (case search_by_keywords cfg s1 keywords search env of
                   (m, s2) \<Rightarrow> (n + m, s2))))"

text \<open>Strategy 2: the recent messages of one known channel, as far as they are iterated.\<close>

fun extract_from_forwards ::
  "settings \<Rightarrow> state \<Rightarrow> int \<Rightarrow> tg_message list \<Rightarrow> (int \<Rightarrow> register_env) \<Rightarrow> nat \<times> state" where
  "extract_from_forwards cfg s chat [] env = (0, s)"
| "extract_from_forwards cfg s chat (msg # msgs) env =
     (if at_capacity cfg s then (0, s)
      else (case tgm_fwd_channel msg of
              None \<Rightarrow> extract_from_forwards cfg s chat msgs env
            | Some src_id \<Rightarrow>
                (case try_register cfg s src_id (''forward:'' @ str_int chat) None None (env src_id) of
                   (added, s1) \<Rightarrow>
                     (case extract_from_forwards cfg s1 chat msgs env of
                        (n, s2) \<Rightarrow> ((if added then 1 else 0) + n, s2)))))"

text \<open>
  Strategy 3: the handles the pattern finds in the description of one known channel, each
  with the entity the client resolves it to.
\<close>

fun scan_mentions ::
  "settings \<Rightarrow> state \<Rightarrow> int \<Rightarrow> (string \<times> (exn + tg_chat)) list \<Rightarrow> (int \<Rightarrow> register_env) \<Rightarrow> nat \<times> state" where
  "scan_mentions cfg s chat [] env = (0, s)"
| "scan_mentions cfg s chat ((uname, target) # rest) env =
     (if at_capacity cfg s then (0, s)
      else (case target of
              Inl ex \<Rightarrow> scan_mentions cfg s chat rest env
            | Inr t \<Rightarrow>
                if \<not> chat_is_channel t \<or> chat_megagroup t then scan_mentions cfg s chat rest env
                else (case try_register cfg s (chat_id t) (''description:'' @ str_int chat)
                             (chat_username t) (chat_title t) (env (chat_id t)) of
                        (added, s1) \<Rightarrow>
                          (case scan_mentions cfg s1 chat rest env of
                             (n, s2) \<Rightarrow> ((if added then 1 else 0) + n, s2)))))"

definition extract_from_description ::
  "settings \<Rightarrow> state \<Rightarrow> int \<Rightarrow> exn + bool \<Rightarrow> (string \<times> (exn + tg_chat)) list \<Rightarrow> (int \<Rightarrow> register_env)
     \<Rightarrow> nat \<times> state" where
  \<comment> \<open>The fourth argument tells whether the entity of the chat is a channel, or the
      exception of the request.\<close>
  "extract_from_description cfg s chat entity mentions env =
     (case entity of
        Inl ex \<Rightarrow> (0, s)
      | Inr is_channel \<Rightarrow> if \<not> is_channel then (0, s) else scan_mentions cfg s chat mentions env)"

section \<open>Example states and environments\<close>

text \<open>Concrete inputs on which the theorems below are instantiated and the model is run.\<close>

definition empty_state :: state where
  \<comment> \<open>the empty database, nothing monitored, the default limiter\<close>
  "empty_state =
     \<lparr>channels = [], messages = [], leads = [], replies = [], daily_budget = Map.empty,
      monitored_chats = {}, queue = [], outreach_paused_until = None,
      limiter = default_limiter, notifications = [], known_ids = {}, rejected_ids = {}\<rparr>"

definition seed_channel :: "int \<Rightarrow> int \<Rightarrow> channel" where
  \<comment> \<open>a channel row as the start-up registers a seed: no provenance\<close>
  "seed_channel cid tid =
     \<lparr>ch_id = cid, ch_telegram_id = Some tid, ch_username = None, ch_title = None,
      ch_is_active = True, ch_discovered_from = None, ch_discovered_at = None\<rparr>"

definition two_channels :: state where
  \<comment> \<open>channels 1 and 2 with platform ids 100 and 200, both monitored, no message yet\<close>
  "two_channels = empty_state\<lparr>channels := [seed_channel 1 100, seed_channel 2 200],
                               monitored_chats := {100, 200}\<rparr>"

definition post :: "int \<Rightarrow> int \<Rightarrow> string \<Rightarrow> incoming_message" where
  \<comment> \<open>message \<open>n\<close> of chat \<open>chat\<close>, from user 5\<close>
  "post n chat t =
     \<lparr>im_telegram_msg_id = n, im_chat_id = chat, im_sender_id = Some 5,
      im_sender_username = None, im_text = t, im_date = ''2024-01-01T00:00:00+00:00''\<rparr>"

definition order_reply :: "real \<Rightarrow> exn + json" where
  \<comment> \<open>the classifier's backend answers: an order, with this relevance score\<close>
  "order_reply x = Inr (JObj [(''is_order'', JBool True), (''relevance_score'', JNum x)])"


definition first_post :: incoming_message where
  \<comment> \<open>an order posted in the first channel\<close>
  "first_post = post 7 100 ''  Need a  BOT ''"

definition repost :: incoming_message where
  \<comment> \<open>the same order, up to case and spacing, in the second channel\<close>
  "repost = post 9 200 ''need a bot''"

definition contactable :: state where
  \<comment> \<open>the first post stored as message 1 with its Lead 1 in status \<open>new\<close>, and the row of
      day 0 with an allowance of two sends\<close>
  "contactable =
     two_channels
       \<lparr>messages := [(make_message (seed_channel 1 100) first_post ''need a bot'')\<lparr>msg_id := 1\<rparr>],
        leads := [(make_lead 1 (JNum (4/5)) [])\<lparr>lead_id := 1\<rparr>],
        daily_budget := [0 \<mapsto> \<lparr>sends_used = 0, max_sends = 2\<rparr>]\<rparr>"

definition quiet_env :: outreach_env where
  \<comment> \<open>day 0, both texts generated, both sends delivered\<close>
  "quiet_env =
     \<lparr>now_paused = 0, today_budget = 0, now_limit = 0,
      thread_text_gen = Inr ''hello'', dm_text_gen = Inr ''hi'',
      thread_client = (\<lambda>attempt. Delivered 11), dm_client = (\<lambda>attempt. Delivered 12),
      now_sent = 5, today_incr = 0, notifier_ok = True,
      wait_now = 0, wait_delay = 120, wait_lag = 0\<rparr>"

definition both_refused :: outreach_env where
  \<comment> \<open>the chat forbids writing and the user's privacy settings refuse the private message\<close>
  "both_refused =
     quiet_env\<lparr>thread_client := (\<lambda>attempt. Raises ChatWriteForbiddenError),
                dm_client := (\<lambda>attempt. Raises UserPrivacyRestrictedError)\<rparr>"

definition tongue_tied :: outreach_env where
  \<comment> \<open>the text-generation client raises on the thread reply\<close>
  "tongue_tied = quiet_env\<lparr>thread_text_gen := Inl OtherError\<rparr>"





definition relevant_env :: register_env where
  \<comment> \<open>a candidate that resolves, has a text to sample and is judged relevant\<close>
  "relevant_env =
     \<lparr>reg_entity = Inr (Some ''jobs'', Some ''Jobs''),
      reg_samples = Inr [\<lparr>tgm_id = 1, tgm_text = Some ''Looking for a developer'', tgm_sender_id = None,
                          tgm_sender_username = None, tgm_date = ''2024-01-01T00:00:00+00:00'',
                          tgm_fwd_channel = None\<rparr>],
      reg_llm = Inr (JObj [(''is_relevant'', JBool True), (''reason'', JStr ''orders'')]),
      reg_now = 100, reg_backfill = []\<rparr>"

definition full_house :: state where
  \<comment> \<open>both channels are known to the discovery engine\<close>
  "full_house = two_channels\<lparr>known_ids := {100, 200}\<rparr>"

definition found_chat :: "int \<Rightarrow> tg_chat" where
  \<comment> \<open>a broadcast channel the search returns\<close>
  "found_chat i = \<lparr>chat_is_channel = True, chat_megagroup = False, chat_id = i,
                   chat_username = Some ''jobs'', chat_title = Some ''Jobs''\<rparr>"




section \<open>Warm-up tiers\<close>

lemma weeks_le:
  fixes d :: int
  shows "d div 7 + 1 \<le> 1 \<longleftrightarrow> d < 7"
    and "d div 7 + 1 \<le> 2 \<longleftrightarrow> d < 14"
    and "d div 7 + 1 \<le> 3 \<longleftrightarrow> d < 21"
  by presburger+

text \<open>
  Claim C7. With \<open>d\<close> the whole days since the start, \<open>get_current_daily_limit\<close> returns the
  week-1 value for \<open>d\<close> from 0 to 6, the week-2 value for 7 to 13, the week-3 value for 14 to
  20 and the week-4-plus value from day 21 on. The value of a tier is the entry of the
  warm-up schedule under the tier's key, and 2, 5, 8 or 12 when the schedule has no such
  entry; the week index \<open>d div 7 + 1\<close> selects the tier.
\<close>

theorem warmup_tiers_by_day:
  "(let d = timedelta_days (now - started_at rl); limit = get_current_daily_limit rl now in
      (0 \<le> d \<and> d \<le> 6 \<longrightarrow> limit = (case warmup rl ''week_1'' of Some v \<Rightarrow> v | None \<Rightarrow> 2))
    \<and> (7 \<le> d \<and> d \<le> 13 \<longrightarrow> limit = (case warmup rl ''week_2'' of Some v \<Rightarrow> v | None \<Rightarrow> 5))
    \<and> (14 \<le> d \<and> d \<le> 20 \<longrightarrow> limit = (case warmup rl ''week_3'' of Some v \<Rightarrow> v | None \<Rightarrow> 8))
    \<and> (21 \<le> d \<longrightarrow> limit = (case warmup rl ''week_4_plus'' of Some v \<Rightarrow> v | None \<Rightarrow> 12))
    \<and> (d div 7 + 1 = 1 \<longrightarrow> limit = (case warmup rl ''week_1'' of Some v \<Rightarrow> v | None \<Rightarrow> 2))
    \<and> (d div 7 + 1 = 2 \<longrightarrow> limit = (case warmup rl ''week_2'' of Some v \<Rightarrow> v | None \<Rightarrow> 5))
    \<and> (d div 7 + 1 = 3 \<longrightarrow> limit = (case warmup rl ''week_3'' of Some v \<Rightarrow> v | None \<Rightarrow> 8))
    \<and> (4 \<le> d div 7 + 1 \<longrightarrow> limit = (case warmup rl ''week_4_plus'' of Some v \<Rightarrow> v | None \<Rightarrow> 12)))"
proof -
  let ?d = "timedelta_days (now - started_at rl)"
  have w: "?d div 7 + 1 = 1 \<longleftrightarrow> 0 \<le> ?d \<and> ?d \<le> 6" "?d div 7 + 1 = 2 \<longleftrightarrow> 7 \<le> ?d \<and> ?d \<le> 13"
    "?d div 7 + 1 = 3 \<longleftrightarrow> 14 \<le> ?d \<and> ?d \<le> 20" "4 \<le> ?d div 7 + 1 \<longleftrightarrow> 21 \<le> ?d"
    by presburger+
  show ?thesis
    unfolding get_current_daily_limit_def Let_def dict_get_def w
    by (simp only: weeks_le) simp
qed

theorem warmup_tiers_by_day_witness:
  "timedelta_days (15 * usec_per_day + 5 - started_at tuned_limiter) = 13
   \<and> get_current_daily_limit tuned_limiter (2 * usec_per_day) = 3
   \<and> get_current_daily_limit tuned_limiter (8 * usec_per_day) = 3
   \<and> get_current_daily_limit tuned_limiter (9 * usec_per_day) = 6
   \<and> get_current_daily_limit tuned_limiter (15 * usec_per_day + 5) = 6
   \<and> get_current_daily_limit tuned_limiter (16 * usec_per_day) = 9
   \<and> get_current_daily_limit tuned_limiter (22 * usec_per_day) = 9
   \<and> get_current_daily_limit tuned_limiter (23 * usec_per_day) = 12
   \<and> get_current_daily_limit default_limiter (6 * usec_per_day) = 2
   \<and> get_current_daily_limit default_limiter (21 * usec_per_day) = 12"
proof -
  have d: "timedelta_days (2 * usec_per_day - started_at tuned_limiter) = 0"
      "timedelta_days (8 * usec_per_day - started_at tuned_limiter) = 6"
      "timedelta_days (9 * usec_per_day - started_at tuned_limiter) = 7"
      "timedelta_days (15 * usec_per_day + 5 - started_at tuned_limiter) = 13"
      "timedelta_days (16 * usec_per_day - started_at tuned_limiter) = 14"
      "timedelta_days (22 * usec_per_day - started_at tuned_limiter) = 20"
      "timedelta_days (23 * usec_per_day - started_at tuned_limiter) = 21"
      "timedelta_days (6 * usec_per_day - started_at default_limiter) = 6"
      "timedelta_days (21 * usec_per_day - started_at default_limiter) = 21"
    by (simp_all add: timedelta_days_def usec_per_day_def tuned_limiter_def default_limiter_def)
  have w: "warmup tuned_limiter ''week_1'' = Some 3" "warmup tuned_limiter ''week_2'' = Some 6"
       "warmup tuned_limiter ''week_3'' = Some 9" "warmup tuned_limiter ''week_4_plus'' = None"
       "warmup default_limiter ''week_1'' = Some 2" "warmup default_limiter ''week_4_plus'' = Some 12"
    by (simp_all add: tuned_limiter_def default_limiter_def)
  show ?thesis
    using warmup_tiers_by_day [where rl = tuned_limiter and now = "2 * usec_per_day"]
      warmup_tiers_by_day [where rl = tuned_limiter and now = "8 * usec_per_day"]
      warmup_tiers_by_day [where rl = tuned_limiter and now = "9 * usec_per_day"]
      warmup_tiers_by_day [where rl = tuned_limiter and now = "15 * usec_per_day + 5"]
      warmup_tiers_by_day [where rl = tuned_limiter and now = "16 * usec_per_day"]
      warmup_tiers_by_day [where rl = tuned_limiter and now = "22 * usec_per_day"]
      warmup_tiers_by_day [where rl = tuned_limiter and now = "23 * usec_per_day"]
      warmup_tiers_by_day [where rl = default_limiter and now = "6 * usec_per_day"]
      warmup_tiers_by_day [where rl = default_limiter and now = "21 * usec_per_day"]
    by (simp add: d w Let_def)
qed

section \<open>Pacing: the intervals between sends\<close>

lemma wait_fields [simp]:
  "min_delay (wait rl now d lag) = min_delay rl" "max_delay (wait rl now d lag) = max_delay rl"
  "warmup (wait rl now d lag) = warmup rl" "started_at (wait rl now d lag) = started_at rl"
  by (simp_all add: wait_def Let_def)

lemma wait_interval:
  "last_send (wait rl now d lag) - last_send rl = max d (now - last_send rl) + lag"
  by (simp add: wait_def Let_def max_def)

lemma samples_in_window_wait [simp]:
  "samples_in_window (wait rl now d lag) es = samples_in_window rl es"
  by (simp add: samples_in_window_def)

lemma intervals_lower:
  "samples_in_window rl es
     \<Longrightarrow> list_all (\<lambda>x. real_of_int (min_delay rl) \<le> x) (intervals (last_send rl) (map last_send (waits rl es)))"
proof (induction es arbitrary: rl)
  case Nil
  then show ?case by simp
next
  case (Cons e es)
  obtain now d lag where e: "e = (now, d, lag)" by (cases e)
  from Cons.prems e have w: "real_of_int (min_delay rl) \<le> d" "0 \<le> lag" and rest: "samples_in_window rl es"
    by (simp_all add: samples_in_window_def)
  have "real_of_int (min_delay rl) \<le> last_send (wait rl now d lag) - last_send rl"
    using w by (simp add: wait_interval max_def)
  moreover have "list_all (\<lambda>x. real_of_int (min_delay rl) \<le> x)
      (intervals (last_send (wait rl now d lag)) (map last_send (waits (wait rl now d lag) es)))"
    using Cons.IH [of "wait rl now d lag"] rest by simp
  ultimately show ?case by (simp add: e)
qed

lemma intervals_upper:
  "samples_in_window rl es \<Longrightarrow> prompt rl es
     \<Longrightarrow> list_all (\<lambda>x. x \<le> real_of_int (max_delay rl)) (intervals (last_send rl) (map last_send (waits rl es)))"
proof (induction es arbitrary: rl)
  case Nil
  then show ?case by simp
next
  case (Cons e es)
  obtain now d lag where e: "e = (now, d, lag)" by (cases e)
  from Cons.prems e have w: "d \<le> real_of_int (max_delay rl)" "lag = 0"
      "now - last_send rl \<le> real_of_int (max_delay rl)"
    and rest: "samples_in_window rl es" "prompt (wait rl now d lag) es"
    by (auto simp add: samples_in_window_def)
  have "last_send (wait rl now d lag) - last_send rl \<le> real_of_int (max_delay rl)"
    using w by (simp add: wait_interval max_def)
  moreover have "list_all (\<lambda>x. x \<le> real_of_int (max_delay rl))
      (intervals (last_send (wait rl now d lag)) (map last_send (waits (wait rl now d lag) es)))"
    using Cons.IH [of "wait rl now d lag"] rest by simp
  ultimately show ?case by (simp add: e)
qed

lemma waits_length [simp]: "length (waits rl es) = length es"
  by (induction es arbitrary: rl) auto

lemma intervals_length [simp]: "length (intervals t us) = length us"
  by (induction us arbitrary: t) auto

lemma intervals_nth:
  "i < length es \<Longrightarrow> es ! i = (now, d, lag)
     \<Longrightarrow> intervals (last_send rl) (map last_send (waits rl es)) ! i
         = max d (now - last_send ((rl # waits rl es) ! i)) + lag"
proof (induction es arbitrary: rl i)
  case Nil
  then show ?case by simp
next
  case (Cons e es)
  obtain now0 d0 lag0 where e: "e = (now0, d0, lag0)" by (cases e)
  show ?case
  proof (cases i)
    case 0
    with Cons.prems e have "now0 = now" "d0 = d" "lag0 = lag" by simp_all
    then show ?thesis using 0 e by (simp add: wait_interval)
  next
    case (Suc j)
    with Cons.prems have j: "j < length es" "es ! j = (now, d, lag)" by simp_all
    from Cons.IH [OF j, of "wait rl now0 d0 lag0"] show ?thesis by (simp add: Suc e)
  qed
qed

text \<open>
  Claim C4, as amended. When every sampled delay lies in the window and no clock runs
  backwards, the interval between the completions of two consecutive calls of \<open>wait\<close> is
  the larger of the sampled delay and the time already elapsed when the second call is
  entered, plus the oversleep of that call. So every interval is at least \<open>min_delay\<close>; it
  is at most \<open>max_delay\<close> when every call after the first is entered no later than
  \<open>max_delay\<close> after the last completion and sleeps exactly; and it exceeds \<open>max_delay\<close>
  whenever the call is entered later than \<open>max_delay\<close> after the last completion.
\<close>

theorem wait_spacing:
  assumes "samples_in_window rl es"
  shows "list_all (\<lambda>x. real_of_int (min_delay rl) \<le> x) (inter_send_intervals rl es)
       \<and> (prompt_after_first rl es \<longrightarrow>
            list_all (\<lambda>x. x \<le> real_of_int (max_delay rl)) (inter_send_intervals rl es))
       \<and> length (inter_send_intervals rl es) = length es - 1
       \<and> (\<forall>i now d lag. Suc i < length es \<and> es ! Suc i = (now, d, lag) \<longrightarrow>
            inter_send_intervals rl es ! i = max d (now - last_send (waits rl es ! i)) + lag
            \<and> (real_of_int (max_delay rl) < now - last_send (waits rl es ! i) \<longrightarrow>
                 real_of_int (max_delay rl) < inter_send_intervals rl es ! i))"
proof (cases es)
  case Nil
  then show ?thesis by (simp add: inter_send_intervals_def)
next
  case (Cons e rest)
  obtain now0 d0 lag0 where e: "e = (now0, d0, lag0)" by (cases e)
  let ?w = "wait rl now0 d0 lag0"
  have rest: "samples_in_window ?w rest"
    using assms Cons by (simp add: samples_in_window_def)
  have eq: "inter_send_intervals rl es
      = intervals (last_send ?w) (map last_send (waits ?w rest))"
    by (simp add: inter_send_intervals_def Cons e)
  have ws: "waits rl es = ?w # waits ?w rest" by (simp add: Cons e)
  have p: "prompt_after_first rl es = prompt ?w rest"
    by (simp add: prompt_after_first_def Cons e)
  have len: "length (inter_send_intervals rl es) = length es - 1"
    unfolding eq by (simp add: Cons)
  have exact: "inter_send_intervals rl es ! i = max d (now - last_send (waits rl es ! i)) + lag
            \<and> (real_of_int (max_delay rl) < now - last_send (waits rl es ! i) \<longrightarrow>
                 real_of_int (max_delay rl) < inter_send_intervals rl es ! i)"
    if i: "Suc i < length es" "es ! Suc i = (now, d, lag)" for i now d lag
  proof -
    from i have j: "i < length rest" "rest ! i = (now, d, lag)" by (simp_all add: Cons)
    have "0 \<le> lag"
      using rest j unfolding samples_in_window_def list_all_length by fastforce
    moreover have "inter_send_intervals rl es ! i = max d (now - last_send (waits rl es ! i)) + lag"
      unfolding eq ws using intervals_nth [OF j, of ?w] .
    ultimately show ?thesis by (simp add: max_def)
  qed
  have lower: "list_all (\<lambda>x. real_of_int (min_delay rl) \<le> x) (inter_send_intervals rl es)"
    unfolding eq using intervals_lower [OF rest] by simp
  have upper: "prompt_after_first rl es \<longrightarrow>
            list_all (\<lambda>x. x \<le> real_of_int (max_delay rl)) (inter_send_intervals rl es)"
    unfolding eq p using intervals_upper [OF rest] by simp
  from lower upper len exact show ?thesis by blast
qed

theorem wait_spacing_witness:
  "samples_in_window default_limiter [(50, 200, 0), (300, 500, 0), (1000, 150, 0)]
   \<and> prompt_after_first default_limiter [(50, 200, 0), (300, 500, 0), (1000, 150, 0)]
   \<and> inter_send_intervals default_limiter [(50, 200, 0), (300, 500, 0), (1000, 150, 0)] = [500, 300]
   \<and> list_all (\<lambda>x. real_of_int (min_delay default_limiter) \<le> x)
        (inter_send_intervals default_limiter [(50, 200, 0), (300, 500, 0), (1000, 150, 0)])
   \<and> list_all (\<lambda>x. x \<le> real_of_int (max_delay default_limiter))
        (inter_send_intervals default_limiter [(50, 200, 0), (300, 500, 0), (1000, 150, 0)])
   \<and> samples_in_window default_limiter [(50, 200, 0), (900, 300, 2)]
   \<and> map last_send (waits default_limiter [(50, 200, 0), (900, 300, 2)]) = [200, 902]
   \<and> real_of_int (max_delay default_limiter)
        < inter_send_intervals default_limiter [(50, 200, 0), (900, 300, 2)] ! 0"
proof -
  have a: "samples_in_window default_limiter [(50, 200, 0), (300, 500, 0), (1000, 150, 0)]"
    by (simp add: samples_in_window_def default_limiter_def)
  have b: "prompt_after_first default_limiter [(50, 200, 0), (300, 500, 0), (1000, 150, 0)]"
    by (simp add: prompt_after_first_def wait_def default_limiter_def Let_def)
  have c: "inter_send_intervals default_limiter [(50, 200, 0), (300, 500, 0), (1000, 150, 0)] = [500, 300]"
    by (simp add: inter_send_intervals_def wait_def default_limiter_def Let_def)
  have a': "samples_in_window default_limiter [(50, 200, 0), (900, 300, 2)]"
    by (simp add: samples_in_window_def default_limiter_def)
  have ws: "map last_send (waits default_limiter [(50, 200, 0), (900, 300, 2)]) = [200, 902]"
    by (simp add: wait_def default_limiter_def Let_def)
  have first: "last_send (waits default_limiter [(50, 200, 0), (900, 300, 2)] ! 0) = 200"
    by (simp add: wait_def default_limiter_def Let_def)
  have late: "real_of_int (max_delay default_limiter)
        < inter_send_intervals default_limiter [(50, 200, 0), (900, 300, 2)] ! 0"
    using wait_spacing [OF a', THEN conjunct2, THEN conjunct2, THEN conjunct2, rule_format,
        of 0 900 300 2] first
    by (simp add: default_limiter_def)
  from wait_spacing [OF a] a b c a' ws late show ?thesis by simp
qed

text \<open>
  Claim C4 as stated fails in its upper bound: a call entered 1050 seconds after the last
  completion (a slow send, or a pause of the outreach loop) does not sleep, and the interval
  is 1050 seconds against a window of 120 to 600.
\<close>

theorem wait_upper_bound_counterexample:
  "samples_in_window default_limiter [(50, 200, 0), (1250, 300, 0)]
   \<and> inter_send_intervals default_limiter [(50, 200, 0), (1250, 300, 0)] = [1050]
   \<and> \<not> list_all (\<lambda>x. real_of_int (min_delay default_limiter) \<le> x \<and> x \<le> real_of_int (max_delay default_limiter))
          (inter_send_intervals default_limiter [(50, 200, 0), (1250, 300, 0)])"
  by (simp add: samples_in_window_def inter_send_intervals_def wait_def default_limiter_def Let_def)

section \<open>Cross-channel dedup\<close>

lemma next_id_fresh: "next_id ids \<notin> set ids"
proof (cases "ids = []")
  case True
  then show ?thesis by simp
next
  case False
  have "\<forall>i \<in> set ids. i \<le> Max (set ids)" by simp
  then have "Max (set ids) + 1 \<notin> set ids" by fastforce
  with False show ?thesis by (simp add: next_id_def)
qed

lemma insert_message_leads:
  "insert_message s msg = (r, s1) \<Longrightarrow> leads s1 = leads s"
  by (auto simp: insert_message_def Let_def split: if_splits)

lemma insert_message_None: "insert_message s msg = (None, s1) \<Longrightarrow> s1 = s"
  by (auto simp: insert_message_def Let_def split: if_splits)

lemma insert_message_Some:
  assumes "insert_message s msg = (Some i, s1)"
  shows "s1 = s\<lparr>messages := messages s @ [msg\<lparr>msg_id := i\<rparr>]\<rparr>" and "i \<notin> msg_id ` set (messages s)"
  using assms next_id_fresh [of "map msg_id (messages s)"]
  by (auto simp: insert_message_def Let_def split: if_splits)

lemma leads_with_hash_add_message:
  assumes ref: "referential s" and fresh: "msg_id m \<notin> msg_id ` set (messages s)"
  shows "leads_with_hash (s\<lparr>messages := messages s @ [m]\<rparr>) h = leads_with_hash s h"
proof -
  have "\<forall>l \<in> set (leads s). lead_message_id l \<noteq> msg_id m"
    using ref fresh unfolding referential_def by (metis image_eqI)
  then show ?thesis
    unfolding leads_with_hash_def by (auto intro!: filter_cong)
qed

lemma has_lead_iff: "has_lead_with_text_hash s h \<longleftrightarrow> leads_with_hash s h \<noteq> []"
  by (auto simp: has_lead_with_text_hash_def leads_with_hash_def filter_empty_conv)

lemma referential_add_message:
  "referential s \<Longrightarrow> referential (s\<lparr>messages := messages s @ [m]\<rparr>)"
  unfolding referential_def by auto

lemma one_lead_add_message:
  "referential s \<Longrightarrow> msg_id m \<notin> msg_id ` set (messages s) \<Longrightarrow> one_lead_per_hash s
     \<Longrightarrow> one_lead_per_hash (s\<lparr>messages := messages s @ [m]\<rparr>)"
  unfolding one_lead_per_hash_def by (simp add: leads_with_hash_add_message)

lemma process_message_shape:
  assumes "process_message sha256 thr s im llm = (r, s')"
  shows "(s' = s \<and> (\<forall>lid. r \<noteq> LeadCreated lid))
       \<or> (\<exists>m. msg_id m \<notin> msg_id ` set (messages s)
              \<and> msg_text_hash m = Some (compute_text_hash sha256 (im_text im))
              \<and> msg_telegram_msg_id m = im_telegram_msg_id im \<and> msg_text m = Some (im_text im)
              \<and> (s' = s\<lparr>messages := messages s @ [m]\<rparr> \<and> (\<forall>lid. r \<noteq> LeadCreated lid)
                 \<or> (\<exists>l. \<not> has_lead_with_text_hash (s\<lparr>messages := messages s @ [m]\<rparr>)
                           (compute_text_hash sha256 (im_text im))
                        \<and> lead_message_id l = msg_id m \<and> r = LeadCreated (lead_id l)
                        \<and> s' = s\<lparr>messages := messages s @ [m], leads := leads s @ [l]\<rparr>)))"
proof (cases "get_channel_by_telegram_id s (im_chat_id im)")
  case None
  with assms show ?thesis by (auto simp add: process_message_def)
next
  case (Some ch)
  let ?h = "compute_text_hash sha256 (im_text im)"
  let ?msg = "make_message ch im ?h"
  obtain r1 s1 where ins: "insert_message s ?msg = (r1, s1)" by (cases "insert_message s ?msg")
  show ?thesis
  proof (cases r1)
    case None
    with ins have "s1 = s" by (simp add: insert_message_None)
    with assms \<open>get_channel_by_telegram_id s (im_chat_id im) = Some ch\<close> ins None show ?thesis
      by (auto simp add: process_message_def Let_def)
  next
    case (Some mid)
    let ?m = "?msg\<lparr>msg_id := mid\<rparr>"
    from ins Some have s1: "s1 = s\<lparr>messages := messages s @ [?m]\<rparr>"
      and fresh: "mid \<notin> msg_id ` set (messages s)"
      using insert_message_Some by blast+
    have hm: "msg_text_hash ?m = Some ?h" by (simp add: make_message_def)
    have idm: "msg_id ?m = mid" "msg_telegram_msg_id ?m = im_telegram_msg_id im"
      "msg_text ?m = Some (im_text im)" by (simp_all add: make_message_def)
    show ?thesis
    proof (cases "\<exists>lid. r = LeadCreated lid")
      case False
      then have "s' = s1"
        using assms \<open>get_channel_by_telegram_id s (im_chat_id im) = Some ch\<close> ins Some
        by (auto simp: process_message_def Let_def split: if_splits sum.splits option.splits bool.splits prod.splits)
      with s1 fresh hm idm False show ?thesis by (metis)
    next
      case True
      then obtain lid where r: "r = LeadCreated lid" by blast
      have nodup: "\<not> has_lead_with_text_hash s1 ?h"
        using assms \<open>get_channel_by_telegram_id s (im_chat_id im) = Some ch\<close> ins Some r
        by (auto simp: process_message_def Let_def split: if_splits)
      obtain result score where
        il: "insert_lead s1 (make_lead mid score result) = Inr (lid, s')"
        using assms \<open>get_channel_by_telegram_id s (im_chat_id im) = Some ch\<close> ins Some r nodup
        by (auto simp: process_message_def Let_def split: if_splits sum.splits option.splits bool.splits prod.splits)
      define l where "l = (make_lead mid score result)\<lparr>lead_id := lid\<rparr>"
      have "s' = s1\<lparr>leads := leads s1 @ [l]\<rparr>"
        using il by (auto simp: insert_lead_def Let_def l_def make_lead_def split: list.splits)
      then have s': "s' = s\<lparr>messages := messages s @ [?m], leads := leads s @ [l]\<rparr>"
        by (simp add: s1)
      have "lead_message_id l = msg_id ?m" "r = LeadCreated (lead_id l)"
        by (simp_all add: l_def make_lead_def r)
      with s' nodup s1 fresh hm idm show ?thesis by (metis)
    qed
  qed
qed

lemma has_lead_mono:
  "has_lead_with_text_hash s h \<Longrightarrow> has_lead_with_text_hash (s\<lparr>messages := messages s @ [m]\<rparr>) h"
  by (auto simp: has_lead_with_text_hash_def)

lemma intake_preserves:
  assumes ref: "referential s" and one: "one_lead_per_hash s"
      and run: "process_message sha256 thr s im llm = (r, s')"
  shows "referential s' \<and> one_lead_per_hash s'"
proof -
  let ?h = "compute_text_hash sha256 (im_text im)"
  from process_message_shape [OF run] consider
      (same) "s' = s"
    | (msg) m where "msg_id m \<notin> msg_id ` set (messages s)" "s' = s\<lparr>messages := messages s @ [m]\<rparr>"
    | (lead) m l where "msg_id m \<notin> msg_id ` set (messages s)" "msg_text_hash m = Some ?h"
        "\<not> has_lead_with_text_hash (s\<lparr>messages := messages s @ [m]\<rparr>) ?h"
        "lead_message_id l = msg_id m"
        "s' = s\<lparr>messages := messages s @ [m], leads := leads s @ [l]\<rparr>"
    by blast
  then show ?thesis
  proof cases
    case same
    with ref one show ?thesis by simp
  next
    case msg
    with ref one show ?thesis
      by (simp add: referential_add_message one_lead_add_message)
  next
    case lead
    let ?s1 = "s\<lparr>messages := messages s @ [m]\<rparr>"
    have ref1: "referential ?s1" using ref by (rule referential_add_message)
    have one1: "one_lead_per_hash ?s1" using ref lead(1) one by (rule one_lead_add_message)
    have s': "s' = ?s1\<lparr>leads := leads ?s1 @ [l]\<rparr>" using lead(5) by simp
    have ref': "referential s'"
      using ref1 lead(4) unfolding referential_def s' by auto
    have "length (leads_with_hash s' h) \<le> 1" for h
    proof (cases "h = ?h")
      case True
      have "leads_with_hash ?s1 ?h = []"
        using lead(3) by (simp add: has_lead_iff)
      then show ?thesis
        unfolding True s' by (simp add: leads_with_hash_def)
    next
      case False
      have "\<not> (\<exists>m' \<in> set (messages ?s1). lead_message_id l = msg_id m' \<and> msg_text_hash m' = Some h)"
        using lead(1,2,4) False by (auto simp: image_iff)
      then have "leads_with_hash s' h = leads_with_hash ?s1 h"
        unfolding s' by (simp add: leads_with_hash_def)
      with one1 show ?thesis by (simp add: one_lead_per_hash_def)
    qed
    with ref' show ?thesis by (simp add: one_lead_per_hash_def)
  qed
qed

lemma processor_loop_preserves:
  "referential s \<Longrightarrow> one_lead_per_hash s
     \<Longrightarrow> referential (processor_loop sha256 thr s batch) \<and> one_lead_per_hash (processor_loop sha256 thr s batch)"
proof (induction batch arbitrary: s)
  case Nil
  then show ?case by simp
next
  case (Cons a batch)
  obtain im llm where a: "a = (im, llm)" by (cases a)
  obtain r s' where run: "process_message sha256 thr s im llm = (r, s')"
    by (cases "process_message sha256 thr s im llm")
  from intake_preserves [OF Cons.prems run] Cons.IH [of s'] run a show ?case by simp
qed

lemma intake_adds_at_most_one:
  assumes "process_message sha256 thr s im llm = (r, s')"
  shows "length (leads s') \<le> length (leads s) + 1"
  using process_message_shape [OF assms] by auto

lemma created_has_lead:
  assumes "process_message sha256 thr s im llm = (LeadCreated lid, s')"
  shows "has_lead_with_text_hash s' (compute_text_hash sha256 (im_text im))
       \<and> (\<exists>l \<in> set (leads s'). lead_id l = lid
             \<and> (\<exists>m \<in> set (messages s'). msg_id m = lead_message_id l
                   \<and> msg_telegram_msg_id m = im_telegram_msg_id im \<and> msg_text m = Some (im_text im)))
       \<and> length (leads s') = length (leads s) + 1"
  using process_message_shape [OF assms]
  by (auto simp: has_lead_with_text_hash_def)

lemma after_lead_no_second:
  assumes has: "has_lead_with_text_hash s h" and h: "compute_text_hash sha256 (im_text im) = h"
      and run: "process_message sha256 thr s im llm = (r, s')"
  shows "(\<forall>lid. r \<noteq> LeadCreated lid) \<and> leads s' = leads s \<and> set (messages s) \<subseteq> set (messages s')"
  using process_message_shape [OF run] has_lead_mono [OF has] h
  by auto

text \<open>
  Claim C2, as amended. From a database in which every Lead references a stored Message and
  no hash has two Leads, processing two messages whose normalised texts are equal leaves at
  most one Lead per hash system-wide (also after any further batch), creates at most one
  Lead in total, and when the message processed first yields a Lead the second yields none:
  the Lead stays attached to the Message stored for the first. This holds whichever channels
  the two messages arrived on.
\<close>

theorem cross_channel_dedup:
  assumes ref: "referential s" and one: "one_lead_per_hash s"
      and same: "normalize_text (im_text m1) = normalize_text (im_text m2)"
      and run1: "process_message sha256 thr s m1 r1 = (o1, s1)"
      and run2: "process_message sha256 thr s1 m2 r2 = (o2, s2)"
  shows "one_lead_per_hash s2
       \<and> one_lead_per_hash (processor_loop sha256 thr s2 batch)
       \<and> length (leads s2) \<le> length (leads s) + 1
       \<and> ((\<exists>lid. o1 = LeadCreated lid) \<longrightarrow> (\<forall>lid. o2 \<noteq> LeadCreated lid) \<and> leads s2 = leads s1)
       \<and> (\<forall>lid. o1 = LeadCreated lid \<longrightarrow>
             (\<exists>l \<in> set (leads s2). lead_id l = lid
                \<and> (\<exists>m \<in> set (messages s2). msg_id m = lead_message_id l
                      \<and> msg_telegram_msg_id m = im_telegram_msg_id m1 \<and> msg_text m = Some (im_text m1))))"
proof -
  have h: "compute_text_hash sha256 (im_text m2) = compute_text_hash sha256 (im_text m1)"
    using same by (simp add: compute_text_hash_def)
  have inv1: "referential s1 \<and> one_lead_per_hash s1"
    using intake_preserves [OF ref one run1] .
  then have inv2: "referential s2 \<and> one_lead_per_hash s2"
    using intake_preserves [OF _ _ run2] by blast
  then have loop: "one_lead_per_hash (processor_loop sha256 thr s2 batch)"
    using processor_loop_preserves by blast
  have created: "(\<forall>lid'. o2 \<noteq> LeadCreated lid') \<and> leads s2 = leads s1
       \<and> (\<exists>l \<in> set (leads s2). lead_id l = lid
             \<and> (\<exists>m \<in> set (messages s2). msg_id m = lead_message_id l
                   \<and> msg_telegram_msg_id m = im_telegram_msg_id m1 \<and> msg_text m = Some (im_text m1)))"
    if o1: "o1 = LeadCreated lid" for lid
  proof -
    from created_has_lead [OF run1 [unfolded o1]]
    have has: "has_lead_with_text_hash s1 (compute_text_hash sha256 (im_text m1))"
      and att: "\<exists>l \<in> set (leads s1). lead_id l = lid
             \<and> (\<exists>m \<in> set (messages s1). msg_id m = lead_message_id l
                   \<and> msg_telegram_msg_id m = im_telegram_msg_id m1 \<and> msg_text m = Some (im_text m1))"
      by blast+
    from after_lead_no_second [OF has h run2]
    have no2: "\<forall>lid. o2 \<noteq> LeadCreated lid" and same_leads: "leads s2 = leads s1"
      and msgs: "set (messages s1) \<subseteq> set (messages s2)" by blast+
    from att msgs same_leads show ?thesis using no2 by (metis subsetD)
  qed
  have count: "length (leads s2) \<le> length (leads s) + 1"
  proof (cases "\<exists>lid. o1 = LeadCreated lid")
    case True
    then obtain lid where "o1 = LeadCreated lid" by blast
    from created [OF this] intake_adds_at_most_one [OF run1] show ?thesis by simp
  next
    case False
    with process_message_shape [OF run1] have "leads s1 = leads s" by auto
    with intake_adds_at_most_one [OF run2] show ?thesis by simp
  qed
  from inv2 loop count created show ?thesis by blast
qed


text \<open>
  Claim C2 as stated fails where the classifier gives no result for the message processed
  first: the one Lead is then attached to the Message processed second (platform message 9,
  row 2).
\<close>

theorem dedup_attachment_counterexample:
  "normalize_text (im_text first_post) = normalize_text (im_text repost)
   \<and> map lead_message_id
       (leads (processor_loop (\<lambda>t. t) (3/5) two_channels
                 [(first_post, Inr JNull), (repost, order_reply (4/5))])) = [2]
   \<and> map msg_telegram_msg_id
       (messages (processor_loop (\<lambda>t. t) (3/5) two_channels
                 [(first_post, Inr JNull), (repost, order_reply (4/5))])) = [7, 9]
   \<and> map msg_id
       (messages (processor_loop (\<lambda>t. t) (3/5) two_channels
                 [(first_post, Inr JNull), (repost, order_reply (4/5))])) = [1, 2]"
  by code_simp

section \<open>The relevance gate\<close>






text \<open>
  Claim C10. A classification result whose \<open>is_order\<close> field is falsy (absent included)
  makes \<open>classify_message\<close> return \<open>None\<close>, and the message produces no Lead whatever its
  relevance score and the threshold are.
\<close>

theorem non_order_never_lead:
  assumes "\<not> truthy (obj_get kvs ''is_order'' JNull)"
  shows "classify_message (Inr (JObj kvs)) = Inr None
       \<and> fst (process_message sha256 min_relevance s incoming (Inr (JObj kvs)))
            \<in> {UnknownChannel, DuplicateMessage, DuplicateText, NotAnOrder}
       \<and> leads (snd (process_message sha256 min_relevance s incoming (Inr (JObj kvs)))) = leads s"
proof -
  have c: "classify_message (Inr (JObj kvs)) = Inr None"
    using assms by (simp add: classify_message_def)
  show ?thesis
    using c
    by (auto simp: process_message_def Let_def dest: insert_message_leads split: option.splits prod.splits)
qed



theorem non_order_never_lead_witness:
  "\<not> truthy (obj_get [(''is_order'', JBool False), (''relevance_score'', JNum (9/10))] ''is_order'' JNull)
   \<and> classify_message (Inr (JObj [(''is_order'', JBool False), (''relevance_score'', JNum (9/10))])) = Inr None
   \<and> leads (snd (process_message (\<lambda>t. t) (3/5) two_channels first_post
                    (Inr (JObj [(''is_order'', JBool False), (''relevance_score'', JNum (9/10))])))) = []"
proof -
  have f: "\<not> truthy (obj_get [(''is_order'', JBool False), (''relevance_score'', JNum (9/10))] ''is_order'' JNull)"
    by (simp add: obj_get_def)
  have l0: "leads two_channels = []" by (simp add: two_channels_def empty_state_def)
  from non_order_never_lead [OF f, of "\<lambda>t. t" "3/5" two_channels first_post] f l0
  show ?thesis by simp
qed

theorem cross_channel_dedup_witness:
  "referential two_channels \<and> one_lead_per_hash two_channels
   \<and> normalize_text (im_text first_post) = normalize_text (im_text repost)
   \<and> fst (process_message (\<lambda>t. t) (3/5) two_channels first_post (order_reply (4/5))) = LeadCreated 1
   \<and> one_lead_per_hash
       (snd (process_message (\<lambda>t. t) (3/5)
               (snd (process_message (\<lambda>t. t) (3/5) two_channels first_post (order_reply (4/5))))
               repost (order_reply (4/5))))
   \<and> leads (snd (process_message (\<lambda>t. t) (3/5)
               (snd (process_message (\<lambda>t. t) (3/5) two_channels first_post (order_reply (4/5))))
               repost (order_reply (4/5))))
       = leads (snd (process_message (\<lambda>t. t) (3/5) two_channels first_post (order_reply (4/5))))"
proof -
  let ?r1 = "process_message (\<lambda>t. t) (3/5) two_channels first_post (order_reply (4/5))"
  let ?r2 = "process_message (\<lambda>t. t) (3/5) (snd ?r1) repost (order_reply (4/5))"
  have ref: "referential two_channels"
    by (simp add: referential_def two_channels_def empty_state_def)
  have one: "one_lead_per_hash two_channels"
    by (simp add: one_lead_per_hash_def leads_with_hash_def two_channels_def empty_state_def)
  have same: "normalize_text (im_text first_post) = normalize_text (im_text repost)"
    by code_simp
  have run1: "?r1 = (fst ?r1, snd ?r1)" and run2: "?r2 = (fst ?r2, snd ?r2)" by simp_all
  have o1: "fst ?r1 = LeadCreated 1" by code_simp
  from cross_channel_dedup [OF ref one same run1 run2] ref one same o1
  show ?thesis by simp
qed

section \<open>Outreach: what a send records\<close>

lemma find_map_update:
  assumes "\<And>r. lead_id (f r) = i"
  shows "find (\<lambda>r. lead_id r = i) (map (\<lambda>r. if lead_id r = i then f r else r) xs)
       = map_option f (find (\<lambda>r. lead_id r = i) xs)"
  using assms by (induction xs) auto

lemma get_lead_update:
  "get_lead (update_lead s l) (lead_id l)
     = map_option (\<lambda>r. l\<lparr>lead_message_id := lead_message_id r\<rparr>) (get_lead s (lead_id l))"
  unfolding get_lead_def update_lead_def
  using find_map_update [of "\<lambda>r. l\<lparr>lead_message_id := lead_message_id r\<rparr>" "lead_id l" "leads s"]
  by simp

lemma get_lead_increment [simp]:
  "get_lead (increment_daily_sends s d) i = get_lead s i"
  by (simp add: get_lead_def increment_daily_sends_def split: option.splits)

lemma update_lead_budget [simp]: "daily_budget (update_lead s l) = daily_budget s"
  by (simp add: update_lead_def)

lemma increment_budget:
  "daily_budget (increment_daily_sends s d)
     = (case daily_budget s d of None \<Rightarrow> daily_budget s
        | Some b \<Rightarrow> (daily_budget s)(d \<mapsto> b\<lparr>sends_used := sends_used b + 1\<rparr>))"
  by (simp add: increment_daily_sends_def split: option.splits)

lemma send_outreach_effect:
  "(\<exists>msg ch_row thread_text dm_text result.
       get_message s (lead_message_id lead) = Some msg \<and> truthy_str (msg_text msg)
            \<and> get_channel_row s (msg_channel_id msg) = Some ch_row
            \<and> thread_text_gen e = Inr thread_text \<and> dm_text_gen e = Inr dm_text
            \<and> send_outreach (thread_client e) (dm_client e) (msg_sender_id msg) dm_text = Inr result
            \<and> \<not> peer_flood result
       \<and> orchestrator_send_outreach s lead e
           = (None, increment_daily_sends (update_lead s (lead\<lparr>lead_outreach_text := Some thread_text, lead_dm_text := Some dm_text,
                    lead_outreach_msg_id := thread_msg_id result, lead_dm_msg_id := dm_msg_id result,
                    lead_status := ''contacted'', lead_contacted_at := Some (now_sent e)\<rparr>)) (today_incr e)))
   \<or> (\<not> (\<exists>msg ch_row thread_text dm_text result.
            get_message s (lead_message_id lead) = Some msg \<and> truthy_str (msg_text msg)
            \<and> get_channel_row s (msg_channel_id msg) = Some ch_row
            \<and> thread_text_gen e = Inr thread_text \<and> dm_text_gen e = Inr dm_text
            \<and> send_outreach (thread_client e) (dm_client e) (msg_sender_id msg) dm_text = Inr result
            \<and> \<not> peer_flood result)
       \<and> leads (snd (orchestrator_send_outreach s lead e)) = leads s
       \<and> daily_budget (snd (orchestrator_send_outreach s lead e)) = daily_budget s)"
proof (cases "get_message s (lead_message_id lead)")
  case None
  then show ?thesis by (simp add: orchestrator_send_outreach_def)
next
  case (Some msg)
  note msg = this
  show ?thesis
  proof (cases "truthy_str (msg_text msg)")
    case False
    with msg show ?thesis by (simp add: orchestrator_send_outreach_def)
  next
    case True
    note has_text = this
    show ?thesis
    proof (cases "get_channel_row s (msg_channel_id msg)")
      case None
      with msg has_text show ?thesis by (simp add: orchestrator_send_outreach_def)
    next
      case (Some ch_row)
      note ch = this
      show ?thesis
      proof (cases "thread_text_gen e")
        case (Inl ex)
        with msg has_text ch show ?thesis by (simp add: orchestrator_send_outreach_def)
      next
        case (Inr thread_text)
        note tt = this
        show ?thesis
        proof (cases "dm_text_gen e")
          case (Inl ex)
          with msg has_text ch tt show ?thesis by (simp add: orchestrator_send_outreach_def)
        next
          case (Inr dm_text)
          note dt = this
          show ?thesis
          proof (cases "send_outreach (thread_client e) (dm_client e) (msg_sender_id msg) dm_text")
            case (Inl ex)
            with msg has_text ch tt dt show ?thesis by (simp add: orchestrator_send_outreach_def)
          next
            case (Inr result)
            show ?thesis
            proof (cases "peer_flood result")
              case True
              with msg has_text ch tt dt Inr show ?thesis
                by (cases "notifier_ok e")
                   (simp_all add: orchestrator_send_outreach_def notify_def pause_outreach_def)
            next
              case False
              with msg has_text ch tt dt Inr show ?thesis
                by (simp add: orchestrator_send_outreach_def)
            qed
          qed
        qed
      qed
    qed
  qed
qed

text \<open>
  Claim C1, as amended. For a Lead as it is stored: when its message is found with a text,
  its channel is found, the two texts are generated and the send returns without the
  peer-flood signal, then, whatever the two delivered message ids are (null included), the
  Lead's row is marked \<open>contacted\<close>, \<open>contacted_at\<close> is stamped, both ids are stored, and the
  counter of the date read by the increment is raised by one if that date has a row (no
  row is created, and no other row changes). In every other case (the message or the
  channel is missing, the text is empty, the text generation or the send raises, the send
  signals peer flood) no Lead and no counter changes.
\<close>

theorem outreach_marks_contacted:
  assumes row: "get_lead s (lead_id lead) = Some lead"
  shows "(\<forall>msg ch_row thread_text dm_text result.
            get_message s (lead_message_id lead) = Some msg \<and> truthy_str (msg_text msg)
            \<and> get_channel_row s (msg_channel_id msg) = Some ch_row
            \<and> thread_text_gen e = Inr thread_text \<and> dm_text_gen e = Inr dm_text
            \<and> send_outreach (thread_client e) (dm_client e) (msg_sender_id msg) dm_text = Inr result
            \<and> \<not> peer_flood result \<longrightarrow>
            (let s' = snd (orchestrator_send_outreach s lead e) in
               map_option lead_status (get_lead s' (lead_id lead)) = Some ''contacted''
             \<and> map_option lead_contacted_at (get_lead s' (lead_id lead)) = Some (Some (now_sent e))
             \<and> map_option lead_outreach_msg_id (get_lead s' (lead_id lead)) = Some (thread_msg_id result)
             \<and> map_option lead_dm_msg_id (get_lead s' (lead_id lead)) = Some (dm_msg_id result)
             \<and> daily_budget s' =
                 (case daily_budget s (today_incr e) of
                    None \<Rightarrow> daily_budget s
                  | Some b \<Rightarrow> (daily_budget s)(today_incr e \<mapsto> b\<lparr>sends_used := sends_used b + 1\<rparr>))))
       \<and> (\<not> (\<exists>msg ch_row thread_text dm_text result.
            get_message s (lead_message_id lead) = Some msg \<and> truthy_str (msg_text msg)
            \<and> get_channel_row s (msg_channel_id msg) = Some ch_row
            \<and> thread_text_gen e = Inr thread_text \<and> dm_text_gen e = Inr dm_text
            \<and> send_outreach (thread_client e) (dm_client e) (msg_sender_id msg) dm_text = Inr result
            \<and> \<not> peer_flood result) \<longrightarrow>
            leads (snd (orchestrator_send_outreach s lead e)) = leads s
          \<and> daily_budget (snd (orchestrator_send_outreach s lead e)) = daily_budget s)"
proof (intro conjI allI impI)
  assume "\<not> (\<exists>msg ch_row thread_text dm_text result.
            get_message s (lead_message_id lead) = Some msg \<and> truthy_str (msg_text msg)
            \<and> get_channel_row s (msg_channel_id msg) = Some ch_row
            \<and> thread_text_gen e = Inr thread_text \<and> dm_text_gen e = Inr dm_text
            \<and> send_outreach (thread_client e) (dm_client e) (msg_sender_id msg) dm_text = Inr result
            \<and> \<not> peer_flood result)"
  with send_outreach_effect [of s lead e]
  show "leads (snd (orchestrator_send_outreach s lead e)) = leads s"
    and "daily_budget (snd (orchestrator_send_outreach s lead e)) = daily_budget s"
    by blast+
next
  fix msg ch_row thread_text dm_text result
  assume a: "get_message s (lead_message_id lead) = Some msg \<and> truthy_str (msg_text msg)
            \<and> get_channel_row s (msg_channel_id msg) = Some ch_row
            \<and> thread_text_gen e = Inr thread_text \<and> dm_text_gen e = Inr dm_text
            \<and> send_outreach (thread_client e) (dm_client e) (msg_sender_id msg) dm_text = Inr result
            \<and> \<not> peer_flood result"
  let ?l = "lead\<lparr>lead_outreach_text := Some thread_text, lead_dm_text := Some dm_text,
                    lead_outreach_msg_id := thread_msg_id result, lead_dm_msg_id := dm_msg_id result,
                    lead_status := ''contacted'', lead_contacted_at := Some (now_sent e)\<rparr>"
  have s': "snd (orchestrator_send_outreach s lead e)
              = increment_daily_sends (update_lead s ?l) (today_incr e)"
    using a by (simp add: orchestrator_send_outreach_def)
  have g: "get_lead (update_lead s ?l) (lead_id lead) = Some (?l\<lparr>lead_message_id := lead_message_id lead\<rparr>)"
    using get_lead_update [of s ?l] row by simp
  show "let s' = snd (orchestrator_send_outreach s lead e) in
               map_option lead_status (get_lead s' (lead_id lead)) = Some ''contacted''
             \<and> map_option lead_contacted_at (get_lead s' (lead_id lead)) = Some (Some (now_sent e))
             \<and> map_option lead_outreach_msg_id (get_lead s' (lead_id lead)) = Some (thread_msg_id result)
             \<and> map_option lead_dm_msg_id (get_lead s' (lead_id lead)) = Some (dm_msg_id result)
             \<and> daily_budget s' =
                 (case daily_budget s (today_incr e) of
                    None \<Rightarrow> daily_budget s
                  | Some b \<Rightarrow> (daily_budget s)(today_incr e \<mapsto> b\<lparr>sends_used := sends_used b + 1\<rparr>))"
    unfolding s' Let_def by (simp add: g increment_budget split: option.splits)
qed

theorem outreach_marks_contacted_witness:
  "send_outreach (thread_client quiet_env) (dm_client quiet_env) (Some 5) ''hi''
     = Inr \<lparr>thread_msg_id = Some 11, dm_msg_id = Some 12, peer_flood = False\<rparr>
   \<and> map_option lead_status (get_lead contactable 1) = Some ''new''
   \<and> map_option lead_status
        (get_lead (snd (orchestrator_send_outreach contactable ((make_lead 1 (JNum (4/5)) [])\<lparr>lead_id := 1\<rparr>) quiet_env)) 1)
       = Some ''contacted''
   \<and> map_option sends_used
        (daily_budget (snd (orchestrator_send_outreach contactable ((make_lead 1 (JNum (4/5)) [])\<lparr>lead_id := 1\<rparr>) quiet_env)) 0)
       = Some 1
   \<and> leads (snd (orchestrator_send_outreach contactable ((make_lead 1 (JNum (4/5)) [])\<lparr>lead_id := 1\<rparr>) tongue_tied))
       = leads contactable
   \<and> daily_budget (snd (orchestrator_send_outreach contactable ((make_lead 1 (JNum (4/5)) [])\<lparr>lead_id := 1\<rparr>) tongue_tied))
       = daily_budget contactable"
proof -
  let ?lead = "(make_lead 1 (JNum (4/5)) [])\<lparr>lead_id := 1\<rparr>"
  let ?msg = "(make_message (seed_channel 1 100) first_post ''need a bot'')\<lparr>msg_id := 1\<rparr>"
  have msg: "get_message contactable (lead_message_id ?lead) = Some ?msg"
    by (simp add: get_message_def contactable_def make_lead_def)
  have has_text: "truthy_str (msg_text ?msg)"
    by (simp add: truthy_str_def make_message_def first_post_def post_def)
  have ch: "get_channel_row contactable (msg_channel_id ?msg) = Some (seed_channel 1 100)"
    by (simp add: get_channel_row_def contactable_def two_channels_def make_message_def seed_channel_def)
  have tt: "thread_text_gen quiet_env = Inr ''hello''" and dt: "dm_text_gen quiet_env = Inr ''hi''"
    by (simp_all add: quiet_env_def)
  have row: "get_lead contactable (lead_id ?lead) = Some ?lead"
    by (simp add: get_lead_def contactable_def)
  have sender: "msg_sender_id ?msg = Some 5"
    by (simp add: make_message_def first_post_def post_def)
  have sent: "send_outreach (thread_client quiet_env) (dm_client quiet_env) (Some 5) ''hi''
     = Inr \<lparr>thread_msg_id = Some 11, dm_msg_id = Some 12, peer_flood = False\<rparr>"
    by code_simp
  have b0: "daily_budget contactable (today_incr quiet_env) = Some \<lparr>sends_used = 0, max_sends = 2\<rparr>"
    "today_incr quiet_env = 0"
    by (simp_all add: contactable_def quiet_env_def)
  have before: "map_option lead_status (get_lead contactable 1) = Some ''new''"
    by (simp add: get_lead_def contactable_def make_lead_def)
  have mute: "thread_text_gen tongue_tied = Inl OtherError"
    by (simp add: tongue_tied_def)
  have marked: "map_option lead_status
        (get_lead (snd (orchestrator_send_outreach contactable ?lead quiet_env)) 1) = Some ''contacted''
     \<and> map_option sends_used
        (daily_budget (snd (orchestrator_send_outreach contactable ?lead quiet_env)) 0) = Some 1"
    using outreach_marks_contacted [OF row, where e = quiet_env, THEN conjunct1, rule_format,
        of ?msg "seed_channel 1 100" "''hello''" "''hi''"
           "\<lparr>thread_msg_id = Some 11, dm_msg_id = Some 12, peer_flood = False\<rparr>"]
      msg has_text ch tt dt sent sender b0
    by (simp add: Let_def)
  have kept: "leads (snd (orchestrator_send_outreach contactable ?lead tongue_tied)) = leads contactable
     \<and> daily_budget (snd (orchestrator_send_outreach contactable ?lead tongue_tied)) = daily_budget contactable"
    using outreach_marks_contacted [OF row, where e = tongue_tied, THEN conjunct2] mute
    by simp
  from sent before marked kept show ?thesis by simp
qed

text \<open>
  Claim C1 as stated fails: with the thread reply refused (\<open>ChatWriteForbiddenError\<close>) and
  the private message refused (\<open>UserPrivacyRestrictedError\<close>) both message ids are null and
  there is no peer-flood signal, yet the Lead leaves \<open>new\<close> for \<open>contacted\<close>, gets its
  \<open>contacted_at\<close> and the daily counter goes from 0 to 1.
\<close>

theorem contacted_without_delivery_counterexample:
  "send_outreach (thread_client both_refused) (dm_client both_refused) (Some 5) ''hi''
     = Inr \<lparr>thread_msg_id = None, dm_msg_id = None, peer_flood = False\<rparr>
   \<and> map lead_status (leads contactable) = [''new'']
   \<and> map lead_contacted_at (leads contactable) = [None]
   \<and> map_option sends_used (daily_budget contactable 0) = Some 0
   \<and> fst (orchestrator_send_outreach contactable (hd (leads contactable)) both_refused) = None
   \<and> map lead_status (leads (snd (orchestrator_send_outreach contactable (hd (leads contactable)) both_refused)))
       = [''contacted'']
   \<and> map lead_contacted_at (leads (snd (orchestrator_send_outreach contactable (hd (leads contactable)) both_refused)))
       = [Some 5]
   \<and> map_option sends_used
        (daily_budget (snd (orchestrator_send_outreach contactable (hd (leads contactable)) both_refused)) 0)
       = Some 1"
  by code_simp

section \<open>Outreach: the daily budget\<close>






lemma orchestrator_send_outreach_cases:
  "snd (orchestrator_send_outreach s lead e) = s
   \<or> snd (orchestrator_send_outreach s lead e) = pause_outreach s (now_sent e) 24
   \<or> snd (orchestrator_send_outreach s lead e)
        = (pause_outreach s (now_sent e) 24)
            \<lparr>notifications := notifications (pause_outreach s (now_sent e) 24) @ [PeerFloodNotice]\<rparr>
   \<or> (\<exists>l'. snd (orchestrator_send_outreach s lead e)
              = increment_daily_sends (update_lead s l') (today_incr e))"
proof (cases "get_message s (lead_message_id lead)")
  case None
  then show ?thesis by (simp add: orchestrator_send_outreach_def)
next
  case (Some msg)
  note msg = this
  show ?thesis
  proof (cases "truthy_str (msg_text msg)")
    case False
    with msg show ?thesis by (simp add: orchestrator_send_outreach_def)
  next
    case True
    note has_text = this
    show ?thesis
    proof (cases "get_channel_row s (msg_channel_id msg)")
      case None
      with msg has_text show ?thesis by (simp add: orchestrator_send_outreach_def)
    next
      case (Some ch_row)
      note ch = this
      show ?thesis
      proof (cases "thread_text_gen e")
        case (Inl ex)
        with msg has_text ch show ?thesis by (simp add: orchestrator_send_outreach_def)
      next
        case (Inr thread_text)
        note tt = this
        show ?thesis
        proof (cases "dm_text_gen e")
          case (Inl ex)
          with msg has_text ch tt show ?thesis by (simp add: orchestrator_send_outreach_def)
        next
          case (Inr dm_text)
          note dt = this
          show ?thesis
          proof (cases "send_outreach (thread_client e) (dm_client e) (msg_sender_id msg) dm_text")
            case (Inl ex)
            with msg has_text ch tt dt show ?thesis by (simp add: orchestrator_send_outreach_def)
          next
            case (Inr result)
            show ?thesis
            proof (cases "peer_flood result")
              case True
              with msg has_text ch tt dt Inr show ?thesis
                by (cases "notifier_ok e") (simp_all add: orchestrator_send_outreach_def notify_def)
            next
              case False
              with msg has_text ch tt dt Inr
              have "snd (orchestrator_send_outreach s lead e)
                  = increment_daily_sends
                      (update_lead s
                         (lead\<lparr>lead_outreach_text := Some thread_text, lead_dm_text := Some dm_text,
                                lead_outreach_msg_id := thread_msg_id result,
                                lead_dm_msg_id := dm_msg_id result, lead_status := ''contacted'',
                                lead_contacted_at := Some (now_sent e)\<rparr>))
                      (today_incr e)"
                by (simp add: orchestrator_send_outreach_def)
              then show ?thesis by blast
            qed
          qed
        qed
      qed
    qed
  qed
qed

lemma increment_limiter [simp]: "limiter (increment_daily_sends s d) = limiter s"
  by (cases "daily_budget s d") (simp_all add: increment_daily_sends_def)

lemma send_outreach_limiter [simp]:
  "limiter (snd (orchestrator_send_outreach s lead e)) = limiter s"
  using orchestrator_send_outreach_cases [of s lead e]
  by (auto simp: pause_outreach_def update_lead_def)

lemma increment_update_budget [simp]:
  "daily_budget (increment_daily_sends (update_lead s l) d) = daily_budget (increment_daily_sends s d)"
  by (cases "daily_budget s d") (simp_all add: increment_daily_sends_def update_lead_def)










lemma get_leads_by_status_cong: "leads s' = leads s \<Longrightarrow> get_leads_by_status s' st = get_leads_by_status s st"
  by (simp add: get_leads_by_status_def)









section \<open>Forwarding: the first positive reply wins\<close>







text \<open>What one delivered step does.\<close>

lemma update_lead_frame [simp]:
  "replies (update_lead s l) = replies s" "messages (update_lead s l) = messages s"
  "channels (update_lead s l) = channels s" "notifications (update_lead s l) = notifications s"
  by (simp_all add: update_lead_def)






lemma has_negative_cong: "replies t' = replies t \<Longrightarrow> has_negative t' l = has_negative t l"
  by (simp add: has_negative_def get_replies_for_lead_def)






section \<open>Discovery: the capacity ceiling\<close>

lemma try_register_at_capacity:
  "at_capacity cfg s \<Longrightarrow> try_register cfg s telegram_id source username title e = (False, s)"
  by (simp add: try_register_def)

lemma register_chats_at_capacity:
  "at_capacity cfg s \<Longrightarrow> register_chats cfg s keyword chats env = (0, s)"
  by (induction chats) (simp_all add: try_register_at_capacity)

text \<open>
  Claim C5. Once the number of known ids is at or above \<open>max_channels\<close>, the registration
  routine returns \<open>False\<close> for every candidate and leaves the whole state as it was (nothing
  persisted, known or rejected), whatever the validation would answer; and each of the three
  strategies, entered or continued at capacity, registers nothing and changes nothing.
\<close>

theorem capacity_blocks_registration:
  assumes "at_capacity cfg s"
  shows "try_register cfg s telegram_id source username title e = (False, s)
       \<and> register_chats cfg s keyword chats env = (0, s)
       \<and> search_by_keywords cfg s kws search env = (0, s)
       \<and> extract_from_forwards cfg s chat msgs env = (0, s)
       \<and> extract_from_description cfg s chat entity mentions env = (0, s)"
proof (intro conjI)
  show "try_register cfg s telegram_id source username title e = (False, s)"
    using assms by (rule try_register_at_capacity)
  show "register_chats cfg s keyword chats env = (0, s)"
    using assms by (rule register_chats_at_capacity)
  show "search_by_keywords cfg s kws search env = (0, s)"
    using assms by (cases kws) simp_all
  show "extract_from_forwards cfg s chat msgs env = (0, s)"
    using assms by (cases msgs) simp_all
  have "scan_mentions cfg s chat mentions env = (0, s)"
    using assms by (cases mentions) auto
  then show "extract_from_description cfg s chat entity mentions env = (0, s)"
    by (simp add: extract_from_description_def split: sum.splits)
qed

theorem capacity_blocks_registration_witness:
  "at_capacity \<lparr>discovery_max_channels = 2, discovery_backfill_on_discover = 50\<rparr> full_house
   \<and> validate_channel (reg_samples relevant_env) (reg_llm relevant_env)
   \<and> fst (try_register \<lparr>discovery_max_channels = 3, discovery_backfill_on_discover = 50\<rparr>
             full_house 300 ''search:bots'' None None relevant_env)
   \<and> try_register \<lparr>discovery_max_channels = 2, discovery_backfill_on_discover = 50\<rparr>
        full_house 300 ''search:bots'' None None relevant_env = (False, full_house)
   \<and> search_by_keywords \<lparr>discovery_max_channels = 2, discovery_backfill_on_discover = 50\<rparr>
        full_house [''bots'', ''jobs''] (\<lambda>k. Inr [found_chat 300, found_chat 400]) (\<lambda>i. relevant_env)
        = (0, full_house)
   \<and> fst (search_by_keywords \<lparr>discovery_max_channels = 3, discovery_backfill_on_discover = 50\<rparr>
             full_house [''bots'', ''jobs''] (\<lambda>k. Inr [found_chat 300, found_chat 400]) (\<lambda>i. relevant_env))
        = 1"
proof -
  let ?cfg = "\<lparr>discovery_max_channels = 2, discovery_backfill_on_discover = 50\<rparr>"
  have cap: "at_capacity ?cfg full_house"
    by (simp add: at_capacity_def full_house_def)
  have valid: "validate_channel (reg_samples relevant_env) (reg_llm relevant_env)"
    by code_simp
  have room: "fst (try_register \<lparr>discovery_max_channels = 3, discovery_backfill_on_discover = 50\<rparr>
             full_house 300 ''search:bots'' None None relevant_env)"
    by code_simp
  have one: "fst (search_by_keywords \<lparr>discovery_max_channels = 3, discovery_backfill_on_discover = 50\<rparr>
             full_house [''bots'', ''jobs''] (\<lambda>k. Inr [found_chat 300, found_chat 400]) (\<lambda>i. relevant_env))
        = 1"
    by code_simp
  from capacity_blocks_registration [OF cap] cap valid room one
  show ?thesis by simp
qed

section \<open>The janitor: dead channels\<close>






end
